theory Spec2Isabelle
  imports Complex_Main
begin

section \<open>Number model and C library functions\<close>

text \<open>
  The library computes in IEEE single precision. This development reads every
  \<^verbatim>\<open>float\<close> as a real number and every arithmetic operation as the exact operation it
  rounds: \<^verbatim>\<open>sinf\<close>, \<^verbatim>\<open>cosf\<close>, \<^verbatim>\<open>asinf\<close>, \<^verbatim>\<open>acosf\<close>, \<^verbatim>\<open>sqrtf\<close> are \<open>sin\<close>, \<open>cos\<close>,
  \<open>arcsin\<close>, \<open>arccos\<close>, \<open>sqrt\<close>, and the constant \<^verbatim>\<open>PI\<close> is \<open>pi\<close>. Rounding, signed zeros,
  infinities and NaN are outside the model; \<^verbatim>\<open>ENABLE_NAN_CHECK\<close> is 0 in GenMath.h, so
  \<^verbatim>\<open>DiagnosticCheckNaN\<close> is the empty function and is left out.
  Where a statement below says "equal", the source's values agree up to rounding.
\<close>

definition SMALL_NUMBER :: real where
  "SMALL_NUMBER = 1 / 10 ^ 8"

definition KINDA_SMALL_NUMBER :: real where
  "KINDA_SMALL_NUMBER = 1 / 10 ^ 4"

definition PIOVER180 :: real where
  "PIOVER180 = pi / 180"

definition OVERPI :: real where
  "OVERPI = 180 / pi"

definition DEG2RAD :: "real \<Rightarrow> real" where
  "DEG2RAD deg = deg * PIOVER180"

definition RAD2DEG :: "real \<Rightarrow> real" where
  "RAD2DEG rad = rad * OVERPI"

text \<open>
  \<^verbatim>\<open>fmodf(x, y)\<close> of the C library: \<open>x - n * y\<close> where \<open>n\<close> is \<open>x / y\<close> with its
  fractional part cut off, so the result has the sign of \<open>x\<close>.
\<close>

definition truncf :: "real \<Rightarrow> int" where
  "truncf r = (if 0 \<le> r then \<lfloor>r\<rfloor> else - \<lfloor>- r\<rfloor>)"

definition fmodf :: "real \<Rightarrow> real \<Rightarrow> real" where
  "fmodf a b = a - b * of_int (truncf (a / b))"

text \<open>
  \<^verbatim>\<open>atan2f(y, x)\<close> of the C library: the angle of the point \<open>(x, y)\<close> in \<open>(-pi, pi]\<close>,
  and 0 at the origin.
\<close>

definition atan2f :: "real \<Rightarrow> real \<Rightarrow> real" where
  "atan2f b a =
     (if 0 < a then arctan (b / a)
      else if a < 0 then (if 0 \<le> b then arctan (b / a) + pi else arctan (b / a) - pi)
      else if 0 < b then pi / 2
      else if b < 0 then - (pi / 2)
      else 0)"

text \<open>GenMath.h, namespace Math.\<close>

definition FloatEqual :: "real \<Rightarrow> real \<Rightarrow> real \<Rightarrow> bool" where
  "FloatEqual a b tolerance \<longleftrightarrow> \<bar>a - b\<bar> < tolerance"

text \<open>
  \<^verbatim>\<open>Math::InvSqrt\<close> stores its argument into a union of a \<^verbatim>\<open>float\<close> and a
  \<^verbatim>\<open>uint32_t\<close>, computes on the bit pattern, and reads the union back as a float.
  \<open>float_bits\<close> is the IEEE single-precision bit pattern of a number, as a natural
  number below \<open>2 ^ 32\<close>: sign bit, eight bits of biased exponent, 23 bits of
  mantissa (a real number that is no float is cut off to the float next to it towards
  zero); \<open>bits_float\<close> is the number that a bit pattern denotes (the patterns with all
  exponent bits set, the infinities and NaN, denote no number and are read by the
  formula of the normal numbers). The subtraction from \<^verbatim>\<open>0x5f3759df\<close> = 1597463007 is
  that of \<^verbatim>\<open>uint32_t\<close>, modulo \<open>2 ^ 32\<close>. The three multiplications of the Newton step
  that follows are exact, as everywhere in this development.
\<close>

definition float_bits :: "real \<Rightarrow> nat" where
  "float_bits f =
     (if f = 0 then 0
      else (let a = \<bar>f\<bar>; e = \<lfloor>log 2 a\<rfloor>; sign = (if f < 0 then 2 ^ 31 else 0) in
            if e < - 126 then sign + nat \<lfloor>a * 2 ^ 149\<rfloor>
            else if 127 < e then sign + 255 * 2 ^ 23
            else sign + nat (e + 127) * 2 ^ 23 + nat \<lfloor>(a / 2 powr (of_int e) - 1) * 2 ^ 23\<rfloor>))"

definition bits_float :: "nat \<Rightarrow> real" where
  "bits_float i =
     (let sign = i div 2 ^ 31 mod 2; E = i div 2 ^ 23 mod 256; M = i mod 2 ^ 23;
          v = (if E = 0 then real M / 2 ^ 23 * 2 powr (- 126)
               else (1 + real M / 2 ^ 23) * 2 powr (real E - 127)) in
      if sign = 1 then - v else v)"

definition InvSqrt :: "real \<Rightarrow> real" where
  "InvSqrt num =
     (let threehalfs = 1.5;
          x2 = num * 0.5;
          conv_i = float_bits num;
          conv_i = (1597463007 + 2 ^ 32 - conv_i div 2) mod 2 ^ 32;
          conv_f = bits_float conv_i in
      conv_f * (threehalfs - (x2 * conv_f * conv_f)))"

definition Max :: "real \<Rightarrow> real \<Rightarrow> real" where
  "Max A B = (if A \<ge> B then A else B)"


section \<open>Vector3D\<close>

text \<open>
  The fields \<^verbatim>\<open>x\<close>, \<^verbatim>\<open>y\<close>, \<^verbatim>\<open>z\<close> of \<^verbatim>\<open>Vector3D\<close> are \<open>vx\<close>, \<open>vy\<close>, \<open>vz\<close>, and the fields
  \<^verbatim>\<open>w\<close>, \<^verbatim>\<open>x\<close>, \<^verbatim>\<open>y\<close>, \<^verbatim>\<open>z\<close> of \<^verbatim>\<open>Quat\<close> are \<open>qw\<close>, \<open>qx\<close>, \<open>qy\<close>, \<open>qz\<close>: a record field is a
  constant, and the two structs share three names.
\<close>

record Vector3D =
  vx :: real
  vy :: real
  vz :: real

type_synonym Vec3 = Vector3D

definition Vec3_make :: "real \<Rightarrow> real \<Rightarrow> real \<Rightarrow> Vec3" where
  "Vec3_make a b c = \<lparr>vx = a, vy = b, vz = c\<rparr>"

definition Vec3_add :: "Vec3 \<Rightarrow> Vec3 \<Rightarrow> Vec3" where
  "Vec3_add lhs rhs = \<lparr>vx = vx lhs + vx rhs, vy = vy lhs + vy rhs, vz = vz lhs + vz rhs\<rparr>"

definition Vec3_scale :: "real \<Rightarrow> Vec3 \<Rightarrow> Vec3" where
  "Vec3_scale s rhs = \<lparr>vx = vx rhs * s, vy = vy rhs * s, vz = vz rhs * s\<rparr>"

definition Vec3_dot :: "Vec3 \<Rightarrow> Vec3 \<Rightarrow> real" where
  "Vec3_dot lhs rhs = vx lhs * vx rhs + vy lhs * vy rhs + vz lhs * vz rhs"

definition Vec3_cross :: "Vec3 \<Rightarrow> Vec3 \<Rightarrow> Vec3" where
  "Vec3_cross lhs rhs =
     \<lparr>vx = vy lhs * vz rhs - vy rhs * vz lhs,
      vy = vz lhs * vx rhs - vz rhs * vx lhs,
      vz = vx lhs * vy rhs - vx rhs * vy lhs\<rparr>"

definition Vec3_MagnitudeSq :: "Vec3 \<Rightarrow> real" where
  "Vec3_MagnitudeSq v = vx v * vx v + vy v * vy v + vz v * vz v"

definition Vec3_Equals :: "Vec3 \<Rightarrow> Vec3 \<Rightarrow> real \<Rightarrow> bool" where
  "Vec3_Equals v r tolerance \<longleftrightarrow>
     \<bar>vx v - vx r\<bar> \<le> tolerance \<and> \<bar>vy v - vy r\<bar> \<le> tolerance \<and> \<bar>vz v - vz r\<bar> \<le> tolerance"


section \<open>Rotator: angle reduction\<close>

definition ClampAxis :: "real \<Rightarrow> real" where
  "ClampAxis angle =
     (let angle = fmodf angle 360 in
      if angle < 0 then angle + 360 else angle)"

definition NormalizeAxis :: "real \<Rightarrow> real" where
  "NormalizeAxis angle =
     (let angle = fmodf angle 360 in
      if angle > 180 then angle - 360
      else if angle < - 180 then angle + 360
      else angle)"


section \<open>Quat: the value operations\<close>

text \<open>
  \<open>mp_BoundTransform_q\<close> is the private pointer \<^verbatim>\<open>mp_BoundTransform\<close>: \<open>None\<close> is the null
  pointer, \<open>Some t\<close> the address of a Transform.
\<close>

record Quat =
  qw :: real
  qx :: real
  qy :: real
  qz :: real
  mp_BoundTransform_q :: "nat option"

text \<open>The default, member-wise and copy constructors; none of them binds a Transform.\<close>

definition Quat_default :: Quat where
  "Quat_default = \<lparr>qw = 1, qx = 0, qy = 0, qz = 0, mp_BoundTransform_q = None\<rparr>"

definition Quat_make :: "real \<Rightarrow> real \<Rightarrow> real \<Rightarrow> real \<Rightarrow> Quat" where
  "Quat_make InW InX InY InZ =
     \<lparr>qw = InW, qx = InX, qy = InY, qz = InZ, mp_BoundTransform_q = None\<rparr>"

definition Quat_copy :: "Quat \<Rightarrow> Quat" where
  "Quat_copy q = \<lparr>qw = qw q, qx = qx q, qy = qy q, qz = qz q, mp_BoundTransform_q = None\<rparr>"

definition Identity :: Quat where
  "Identity = Quat_default"

definition THRESH_QUAT_NORMALIZED :: real where
  "THRESH_QUAT_NORMALIZED = 1 / 100"

text \<open>\<^verbatim>\<open>Quat::Quat(Vec3 Axis, float AngleRad)\<close>.\<close>

definition Quat_axis_angle :: "Vec3 \<Rightarrow> real \<Rightarrow> Quat" where
  "Quat_axis_angle Axis AngleRad =
     (let half_a = 0.5 * AngleRad; s = sin half_a; c = cos half_a in
      \<lparr>qw = c, qx = s * - vz Axis, qy = s * - vx Axis, qz = s * vy Axis,
       mp_BoundTransform_q = None\<rparr>)"

text \<open>\<^verbatim>\<open>operator*(const Quat&)\<close>, the Hamilton product, and the other value operators.\<close>

definition Quat_mul :: "Quat \<Rightarrow> Quat \<Rightarrow> Quat" where
  "Quat_mul p q = Quat_make
     (qw p * qw q - qx p * qx q - qy p * qy q - qz p * qz q)
     (qw p * qx q + qx p * qw q + qy p * qz q - qz p * qy q)
     (qw p * qy q - qx p * qz q + qy p * qw q + qz p * qx q)
     (qw p * qz q + qx p * qy q - qy p * qx q + qz p * qw q)"

definition Quat_neg :: "Quat \<Rightarrow> Quat" where
  "Quat_neg q = Quat_make (- qw q) (- qx q) (- qy q) (- qz q)"

text \<open>\<^verbatim>\<open>operator*(float)\<close>.\<close>

definition Quat_scale :: "Quat \<Rightarrow> real \<Rightarrow> Quat" where
  "Quat_scale q scale = Quat_make (qw q * scale) (qx q * scale) (qy q * scale) (qz q * scale)"

definition Quat_Equals :: "Quat \<Rightarrow> Quat \<Rightarrow> real \<Rightarrow> bool" where
  "Quat_Equals p q tolerance \<longleftrightarrow>
     FloatEqual (qw p) (qw q) tolerance \<and> FloatEqual (qx p) (qx q) tolerance \<and>
     FloatEqual (qy p) (qy q) tolerance \<and> FloatEqual (qz p) (qz q) tolerance"

text \<open>\<^verbatim>\<open>operator==\<close> compares the four components and not the binding.\<close>

definition Quat_eq :: "Quat \<Rightarrow> Quat \<Rightarrow> bool" where
  "Quat_eq p q \<longleftrightarrow> qx p = qx q \<and> qy p = qy q \<and> qz p = qz q \<and> qw p = qw q"

text \<open>\<^verbatim>\<open>operator|\<close>, the inner product.\<close>

definition Quat_dot :: "Quat \<Rightarrow> Quat \<Rightarrow> real" where
  "Quat_dot p q = qw p * qw q + qx p * qx q + qy p * qy q + qz p * qz q"

definition SizeSquared :: "Quat \<Rightarrow> real" where
  "SizeSquared q = qw q * qw q + qx q * qx q + qy q * qy q + qz q * qz q"

definition Size :: "Quat \<Rightarrow> real" where
  "Size q = sqrt (qw q * qw q + qx q * qx q + qy q * qy q + qz q * qz q)"

definition IsNormalized :: "Quat \<Rightarrow> bool" where
  "IsNormalized q \<longleftrightarrow> \<bar>1 - SizeSquared q\<bar> < THRESH_QUAT_NORMALIZED"

definition Inverse :: "Quat \<Rightarrow> Quat" where
  "Inverse q =
     (if IsNormalized q then Quat_make (qw q) (- qx q) (- qy q) (- qz q)
      else Quat_copy Identity)"

text \<open>
  \<^verbatim>\<open>EnforceShortestArcWith\<close> writes the four components of \<^verbatim>\<open>*this\<close> and calls nothing
  else: the function maps the object before the call to the object after it.
\<close>

definition EnforceShortestArcWith :: "Quat \<Rightarrow> Quat \<Rightarrow> Quat" where
  "EnforceShortestArcWith this q =
     (let dotResult = Quat_dot this q;
          bias = (if dotResult \<ge> 0 then 1 else - 1) in
      this\<lparr>qw := qw this * bias, qx := qx this * bias,
           qy := qy this * bias, qz := qz this * bias\<rparr>)"

definition RotateVector :: "Quat \<Rightarrow> Vec3 \<Rightarrow> Vec3" where
  "RotateVector q V =
     (let Q = Vec3_make (qx q) (qy q) (qz q);
          T = Vec3_scale 2 (Vec3_cross Q V) in
      Vec3_add (Vec3_add V (Vec3_scale (qw q) T)) (Vec3_cross Q T))"

definition UnrotateVector :: "Quat \<Rightarrow> Vec3 \<Rightarrow> Vec3" where
  "UnrotateVector q V =
     (let Q = Vec3_make (- qx q) (- qy q) (- qz q);
          T = Vec3_scale 2 (Vec3_cross Q V) in
      Vec3_add (Vec3_add V (Vec3_scale (qw q) T)) (Vec3_cross Q T))"

definition GetRotationAxis :: "Quat \<Rightarrow> Vec3" where
  "GetRotationAxis q =
     (let s = sqrt (Max (1 - qw q * qw q) 0) in
      if s > KINDA_SMALL_NUMBER then Vec3_make (- qy q / s) (qz q / s) (- qx q / s)
      else Vec3_make 1 0 0)"



text \<open>
  \<^verbatim>\<open>Normalize\<close> on an object that is bound to no Transform: the assignment of
  \<^verbatim>\<open>Quat::Identity\<close> in its second branch finds a null \<^verbatim>\<open>mp_BoundTransform\<close> and writes
  the four components only. The method on an arbitrary object, with its effect on the
  owner, is \<open>Quat_Normalize\<close> below. \<^verbatim>\<open>GetNormalized\<close> runs it on a copy, which the copy
  constructor leaves unbound.
\<close>

definition Normalize_unbound :: "Quat \<Rightarrow> real \<Rightarrow> Quat" where
  "Normalize_unbound this tolerance =
     (let squareSum = qw this * qw this + qx this * qx this + qy this * qy this
                      + qz this * qz this in
      if squareSum \<ge> tolerance
      then (let scale = InvSqrt squareSum in
            this\<lparr>qw := qw this * scale, qx := qx this * scale,
                 qy := qy this * scale, qz := qz this * scale\<rparr>)
      else this\<lparr>qx := qx Identity, qy := qy Identity, qz := qz Identity, qw := qw Identity\<rparr>)"




section \<open>Rotator and the two conversions\<close>

record Rotator =
  pitch :: real
  yaw :: real
  roll :: real
  mp_BoundTransform_r :: "nat option"

definition Rotator_default :: Rotator where
  "Rotator_default = \<lparr>pitch = 0, yaw = 0, roll = 0, mp_BoundTransform_r = None\<rparr>"

definition Rotator_make :: "real \<Rightarrow> real \<Rightarrow> real \<Rightarrow> Rotator" where
  "Rotator_make inPitch inYaw inRoll =
     \<lparr>pitch = inPitch, yaw = inYaw, roll = inRoll, mp_BoundTransform_r = None\<rparr>"

definition ZeroRotator :: Rotator where
  "ZeroRotator = Rotator_default"

text \<open>\<^verbatim>\<open>Rotator::Equals\<close>: the differences are reduced by \<open>NormalizeAxis\<close> first.\<close>

definition Rotator_Equals :: "Rotator \<Rightarrow> Rotator \<Rightarrow> real \<Rightarrow> bool" where
  "Rotator_Equals this r tolerance \<longleftrightarrow>
     \<bar>NormalizeAxis (pitch this - pitch r)\<bar> \<le> tolerance \<and>
     \<bar>NormalizeAxis (yaw this - yaw r)\<bar> \<le> tolerance \<and>
     \<bar>NormalizeAxis (roll this - roll r)\<bar> \<le> tolerance"

text \<open>\<^verbatim>\<open>Rotator::Quaternion\<close>.\<close>

definition Quaternion :: "Rotator \<Rightarrow> Quat" where
  "Quaternion this =
     (let DEG_TO_RAD_DIVIDED_BY_2 = (pi / 180) / 2;
          SP = sin (pitch this * DEG_TO_RAD_DIVIDED_BY_2);
          CP = cos (pitch this * DEG_TO_RAD_DIVIDED_BY_2);
          SY = sin (yaw this * DEG_TO_RAD_DIVIDED_BY_2);
          CY = cos (yaw this * DEG_TO_RAD_DIVIDED_BY_2);
          SR = sin (roll this * DEG_TO_RAD_DIVIDED_BY_2);
          CR = cos (roll this * DEG_TO_RAD_DIVIDED_BY_2) in
      \<lparr>qw = CR * CP * CY + SR * SP * SY,
       qx = CR * SP * SY - SR * CP * CY,
       qy = - CR * SP * CY - SR * CP * SY,
       qz = CR * CP * SY - SR * SP * CY,
       mp_BoundTransform_q = None\<rparr>)"

text \<open>\<^verbatim>\<open>Quat::GetRotator\<close>, with its three branches in the order of the source.\<close>

definition SINGULARITY_THRESHOLD :: real where
  "SINGULARITY_THRESHOLD = 0.4999995"

definition GetRotator :: "Quat \<Rightarrow> Rotator" where
  "GetRotator q =
     (let yawY = 2 * (qw q * qz q + qx q * qy q);
          yawX = 1 - 2 * (qy q * qy q + qz q * qz q);
          singularityTest = qz q * qx q - qw q * qy q in
      if singularityTest < - SINGULARITY_THRESHOLD
      then (let result_yaw = RAD2DEG (atan2f yawY yawX) in
            \<lparr>pitch = - 90, yaw = result_yaw,
             roll = NormalizeAxis (- result_yaw - RAD2DEG (2 * atan2f (qx q) (qw q))),
             mp_BoundTransform_r = None\<rparr>)
      else if singularityTest > SINGULARITY_THRESHOLD
      then (let result_yaw = RAD2DEG (atan2f yawY yawX) in
            \<lparr>pitch = 90, yaw = result_yaw,
             roll = NormalizeAxis (result_yaw - RAD2DEG (2 * atan2f (qx q) (qw q))),
             mp_BoundTransform_r = None\<rparr>)
      else \<lparr>pitch = RAD2DEG (arcsin (2 * singularityTest)),
            yaw = RAD2DEG (atan2f yawY yawX),
            roll = RAD2DEG (atan2f (- 2 * (qw q * qx q + qy q * qz q))
                                   (1 - 2 * (qx q * qx q + qy q * qy q))),
            mp_BoundTransform_r = None\<rparr>)"

text \<open>\<^verbatim>\<open>Rotator::Matrix\<close>; \<open>m2\<close> is the array \<^verbatim>\<open>float m2[3][3]\<close>, a list of three rows.\<close>

record Matrix3x3 =
  m2 :: "real list list"

definition Matrix :: "Rotator \<Rightarrow> Matrix3x3" where
  "Matrix this =
     (let newPitch = yaw this; newYaw = - roll this; newRoll = pitch this;
          SP = sin (DEG2RAD newPitch); CP = cos (DEG2RAD newPitch);
          SY = sin (DEG2RAD newYaw); CY = cos (DEG2RAD newYaw);
          SR = sin (DEG2RAD newRoll); CR = cos (DEG2RAD newRoll) in
      \<lparr>m2 = [[CP * CY, CP * SY, SP],
              [SR * SP * CY - CR * SY, SR * SP * SY + CR * CY, - SR * CP],
              [- (CR * SP * CY + SR * SY), CY * SR - CR * SP * SY, CR * CP]]\<rparr>)"


section \<open>Transform and the objects bound to it\<close>

text \<open>
  Modelled from the spec: Matrix4x4.h (the type \<^verbatim>\<open>Mtx44\<close>, its constructor from a
  \<^verbatim>\<open>Matrix3x3\<close>, \<^verbatim>\<open>Mtx44Scale\<close>, \<^verbatim>\<open>Mtx44Translate\<close> and its product) is not among the
  sources. The spec names them as opaque operations of the linear-algebra collaborator
  and gives the composed matrix as \<open>Translate(position) * RotationMatrix * Scale(scale)\<close>.
  A value of \<open>Mtx44\<close> records which operation was applied to which arguments; the
  entries are given no meaning, and nothing below depends on two different
  expressions being different matrices.
\<close>

datatype Mtx44 =
    Mtx44_default
  | Mtx44_of_Matrix3x3 Matrix3x3
  | Mtx44Scale real real real
  | Mtx44Translate real real real
  | Mtx44_mul Mtx44 Mtx44

text \<open>
  Objects live in a store. A \<^verbatim>\<open>Quat\<close> object is either free-standing (\<open>Quat_at n\<close>) or
  the member \<^verbatim>\<open>rotation\<close> of the Transform at address \<open>t\<close> (\<open>Rotation_of t\<close>); likewise
  a \<^verbatim>\<open>Rotator\<close> object is \<open>Rotator_at n\<close> or the member \<^verbatim>\<open>rotator\<close> of a Transform
  (\<open>Rotator_of t\<close>). The record \<open>Transform\<close> holds the remaining members;
  \<open>notifications\<close> counts the calls of \<^verbatim>\<open>Notify()\<close>.
\<close>

datatype qaddr = Quat_at nat | Rotation_of nat

datatype raddr = Rotator_at nat | Rotator_of nat

record Transform =
  position :: Vec3
  scale :: Vec3
  Tag :: string
  mtx :: Mtx44
  notifications :: nat

record world =
  quats :: "qaddr \<Rightarrow> Quat"
  rotators :: "raddr \<Rightarrow> Rotator"
  transforms :: "nat \<Rightarrow> Transform"

text \<open>\<^verbatim>\<open>Transform::UpdateMtx\<close>: the rotation matrix is taken from the member \<^verbatim>\<open>rotator\<close>.\<close>

definition UpdateMtx :: "nat \<Rightarrow> world \<Rightarrow> world" where
  "UpdateMtx this w =
     (let T = transforms w this;
          rotMtx = Mtx44_of_Matrix3x3 (Matrix (rotators w (Rotator_of this)));
          scaleMtx = Mtx44Scale (vx (scale T)) (vy (scale T)) (vz (scale T));
          transMtx = Mtx44Translate (vx (position T)) (vy (position T)) (vz (position T)) in
      w\<lparr>transforms := (transforms w)
           (this := T\<lparr>mtx := Mtx44_mul transMtx (Mtx44_mul rotMtx scaleMtx),
                     notifications := Suc (notifications T)\<rparr>)\<rparr>)"

text \<open>\<^verbatim>\<open>Quat::UpdateBoundTransform\<close> and \<^verbatim>\<open>Rotator::UpdateBoundTransform\<close>.\<close>

definition Quat_UpdateBoundTransform :: "qaddr \<Rightarrow> world \<Rightarrow> world" where
  "Quat_UpdateBoundTransform this w =
     (case mp_BoundTransform_q (quats w this) of
        None \<Rightarrow> w
      | Some t \<Rightarrow>
          (let tmp = GetRotator (quats w this);
               w1 = w\<lparr>rotators := (rotators w)
                      (Rotator_of t := (rotators w (Rotator_of t))
                         \<lparr>pitch := pitch tmp, yaw := yaw tmp, roll := roll tmp\<rparr>)\<rparr> in
           UpdateMtx t w1))"

definition Rotator_UpdateBoundTransform :: "raddr \<Rightarrow> world \<Rightarrow> world" where
  "Rotator_UpdateBoundTransform this w =
     (case mp_BoundTransform_r (rotators w this) of
        None \<Rightarrow> w
      | Some t \<Rightarrow>
          (let tmp = Quaternion (rotators w this);
               w1 = w\<lparr>quats := (quats w)
                      (Rotation_of t := (quats w (Rotation_of t))
                         \<lparr>qw := qw tmp, qx := qx tmp, qy := qy tmp, qz := qz tmp\<rparr>)\<rparr> in
           UpdateMtx t w1))"

text \<open>
  The mutating members of \<^verbatim>\<open>Quat\<close>. \<open>this\<close> is the address of the object; an argument
  \<^verbatim>\<open>const Quat& q\<close> is passed as the value it has at the call (each member reads a
  component of \<open>q\<close> before it writes the same component of \<^verbatim>\<open>*this\<close>, so an argument
  that is \<^verbatim>\<open>*this\<close> itself gives the same result).
\<close>

definition Quat_assign :: "qaddr \<Rightarrow> Quat \<Rightarrow> world \<Rightarrow> world" where
  "Quat_assign this q w =
     Quat_UpdateBoundTransform this
       (w\<lparr>quats := (quats w)
            (this := (quats w this)\<lparr>qx := qx q, qy := qy q, qz := qz q, qw := qw q\<rparr>)\<rparr>)"

definition Quat_add_assign :: "qaddr \<Rightarrow> Quat \<Rightarrow> world \<Rightarrow> world" where
  "Quat_add_assign this q w =
     (let p = quats w this in
      Quat_UpdateBoundTransform this
        (w\<lparr>quats := (quats w)
             (this := p\<lparr>qx := qx p + qx q, qy := qy p + qy q, qz := qz p + qz q,
                        qw := qw p + qw q\<rparr>)\<rparr>))"

definition Quat_sub_assign :: "qaddr \<Rightarrow> Quat \<Rightarrow> world \<Rightarrow> world" where
  "Quat_sub_assign this q w =
     (let p = quats w this in
      Quat_UpdateBoundTransform this
        (w\<lparr>quats := (quats w)
             (this := p\<lparr>qx := qx p - qx q, qy := qy p - qy q, qz := qz p - qz q,
                        qw := qw p - qw q\<rparr>)\<rparr>))"

text \<open>\<^verbatim>\<open>operator*=(const Quat&)\<close> assigns the product and then updates the owner again.\<close>

definition Quat_mul_assign :: "qaddr \<Rightarrow> Quat \<Rightarrow> world \<Rightarrow> world" where
  "Quat_mul_assign this q w =
     Quat_UpdateBoundTransform this (Quat_assign this (Quat_mul (quats w this) q) w)"

definition Quat_scale_assign :: "qaddr \<Rightarrow> real \<Rightarrow> world \<Rightarrow> world" where
  "Quat_scale_assign this s w =
     (let p = quats w this in
      Quat_UpdateBoundTransform this
        (w\<lparr>quats := (quats w)
             (this := p\<lparr>qw := qw p * s, qx := qx p * s, qy := qy p * s, qz := qz p * s\<rparr>)\<rparr>))"

definition Quat_div_assign :: "qaddr \<Rightarrow> real \<Rightarrow> world \<Rightarrow> world" where
  "Quat_div_assign this s w =
     (let p = quats w this in
      Quat_UpdateBoundTransform this
        (w\<lparr>quats := (quats w)
             (this := p\<lparr>qw := qw p / s, qx := qx p / s, qy := qy p / s, qz := qz p / s\<rparr>)\<rparr>))"

text \<open>
  \<^verbatim>\<open>Quat::Normalize\<close>: the first branch scales the four components and returns; the
  second assigns \<^verbatim>\<open>Quat::Identity\<close> through \<^verbatim>\<open>operator=\<close>.
\<close>

definition Quat_Normalize :: "qaddr \<Rightarrow> real \<Rightarrow> world \<Rightarrow> world" where
  "Quat_Normalize this tolerance w =
     (let p = quats w this;
          squareSum = qw p * qw p + qx p * qx p + qy p * qy p + qz p * qz p in
      if squareSum \<ge> tolerance
      then (let scale = InvSqrt squareSum in
            w\<lparr>quats := (quats w)
                 (this := p\<lparr>qw := qw p * scale, qx := qx p * scale,
                            qy := qy p * scale, qz := qz p * scale\<rparr>)\<rparr>)
      else Quat_assign this Identity w)"

text \<open>The mutating members of \<^verbatim>\<open>Rotator\<close>.\<close>

definition Rotator_assign :: "raddr \<Rightarrow> Rotator \<Rightarrow> world \<Rightarrow> world" where
  "Rotator_assign this r w =
     Rotator_UpdateBoundTransform this
       (w\<lparr>rotators := (rotators w)
            (this := (rotators w this)\<lparr>pitch := pitch r, yaw := yaw r, roll := roll r\<rparr>)\<rparr>)"

definition Rotator_add_assign :: "raddr \<Rightarrow> Rotator \<Rightarrow> world \<Rightarrow> world" where
  "Rotator_add_assign this r w =
     (let p = rotators w this in
      Rotator_UpdateBoundTransform this
        (w\<lparr>rotators := (rotators w)
             (this := p\<lparr>pitch := pitch p + pitch r, yaw := yaw p + yaw r,
                        roll := roll p + roll r\<rparr>)\<rparr>))"

definition Rotator_sub_assign :: "raddr \<Rightarrow> Rotator \<Rightarrow> world \<Rightarrow> world" where
  "Rotator_sub_assign this r w =
     (let p = rotators w this in
      Rotator_UpdateBoundTransform this
        (w\<lparr>rotators := (rotators w)
             (this := p\<lparr>pitch := pitch p - pitch r, yaw := yaw p - yaw r,
                        roll := roll p - roll r\<rparr>)\<rparr>))"

definition Rotator_scale_assign :: "raddr \<Rightarrow> real \<Rightarrow> world \<Rightarrow> world" where
  "Rotator_scale_assign this s w =
     (let p = rotators w this in
      Rotator_UpdateBoundTransform this
        (w\<lparr>rotators := (rotators w)
             (this := p\<lparr>pitch := pitch p * s, yaw := yaw p * s, roll := roll p * s\<rparr>)\<rparr>))"

definition Rotator_Add :: "raddr \<Rightarrow> real \<Rightarrow> real \<Rightarrow> real \<Rightarrow> world \<Rightarrow> world" where
  "Rotator_Add this deltaPitch deltaYaw deltaRoll w =
     (let p = rotators w this in
      Rotator_UpdateBoundTransform this
        (w\<lparr>rotators := (rotators w)
             (this := p\<lparr>pitch := pitch p + deltaPitch, yaw := yaw p + deltaYaw,
                        roll := roll p + deltaRoll\<rparr>)\<rparr>))"

text \<open>\<^verbatim>\<open>Rotator::Clamp\<close> and \<^verbatim>\<open>Rotator::Normalize\<close> write the three angles and return.\<close>

definition Rotator_Clamp :: "raddr \<Rightarrow> world \<Rightarrow> world" where
  "Rotator_Clamp this w =
     (let p = rotators w this in
      w\<lparr>rotators := (rotators w)
           (this := p\<lparr>pitch := ClampAxis (pitch p), yaw := ClampAxis (yaw p),
                      roll := ClampAxis (roll p)\<rparr>)\<rparr>)"

definition Rotator_Normalize :: "raddr \<Rightarrow> world \<Rightarrow> world" where
  "Rotator_Normalize this w =
     (let p = rotators w this in
      w\<lparr>rotators := (rotators w)
           (this := p\<lparr>pitch := NormalizeAxis (pitch p), yaw := NormalizeAxis (yaw p),
                      roll := NormalizeAxis (roll p)\<rparr>)\<rparr>)"

text \<open>
  \<^verbatim>\<open>Rotator\<close> declares no copy constructor (Rotator.h declares the default, the
  three-angle and the \<^verbatim>\<open>Quat\<close> constructors only), so a \<^verbatim>\<open>Rotator\<close> is copied by the
  constructor the language supplies, which copies every member, the pointer
  \<^verbatim>\<open>mp_BoundTransform\<close> included.
\<close>

definition Rotator_copy :: "Rotator \<Rightarrow> Rotator" where
  "Rotator_copy r =
     \<lparr>pitch = pitch r, yaw = yaw r, roll = roll r,
      mp_BoundTransform_r = mp_BoundTransform_r r\<rparr>"

text \<open>
  \<^verbatim>\<open>Rotator::GetNormalized\<close> and \<^verbatim>\<open>Rotator::GetClamped\<close>: \<^verbatim>\<open>Rotator r = *this;\<close> copies the
  object, \<^verbatim>\<open>r.Normalize()\<close> (or \<^verbatim>\<open>r.Clamp()\<close>) reduces the three angles of the copy, and the
  result is returned by value, which copies once more.
\<close>

definition Rotator_GetNormalized :: "Rotator \<Rightarrow> Rotator" where
  "Rotator_GetNormalized this =
     (let r = Rotator_copy this;
          r = r\<lparr>pitch := NormalizeAxis (pitch r), yaw := NormalizeAxis (yaw r),
                 roll := NormalizeAxis (roll r)\<rparr> in
      Rotator_copy r)"

definition Rotator_GetClamped :: "Rotator \<Rightarrow> Rotator" where
  "Rotator_GetClamped this =
     (let r = Rotator_copy this;
          r = r\<lparr>pitch := ClampAxis (pitch r), yaw := ClampAxis (yaw r),
                 roll := ClampAxis (roll r)\<rparr> in
      Rotator_copy r)"

text \<open>
  \<^verbatim>\<open>Transform::Transform()\<close> at the address \<open>this\<close>: the members are default-constructed
  (\<^verbatim>\<open>scale\<close> to \<open>(1, 1, 1)\<close>), both rotation members are bound to it, and the matrix is
  computed.
\<close>

definition Transform_ctor :: "nat \<Rightarrow> world \<Rightarrow> world" where
  "Transform_ctor this w =
     UpdateMtx this
       (w\<lparr>quats := (quats w)
            (Rotation_of this := Quat_default\<lparr>mp_BoundTransform_q := Some this\<rparr>),
          rotators := (rotators w)
            (Rotator_of this := Rotator_default\<lparr>mp_BoundTransform_r := Some this\<rparr>),
          transforms := (transforms w)
            (this := \<lparr>position = Vec3_make 0 0 0, scale = Vec3_make 1 1 1, Tag = [],
                      mtx = Mtx44_default, notifications = 0\<rparr>)\<rparr>)"


text \<open>
  The matrix that \<open>UpdateMtx\<close> assigns, as an expression of the store after its call.
\<close>

definition composed :: "nat \<Rightarrow> world \<Rightarrow> Mtx44" where
  "composed t w =
     Mtx44_mul (Mtx44Translate (vx (position (transforms w t))) (vy (position (transforms w t)))
                               (vz (position (transforms w t))))
       (Mtx44_mul (Mtx44_of_Matrix3x3 (Matrix (rotators w (Rotator_of t))))
                  (Mtx44Scale (vx (scale (transforms w t))) (vy (scale (transforms w t)))
                              (vz (scale (transforms w t)))))"

text \<open>
  The owner \<open>t\<close> reflects the quaternion object \<open>this\<close>: the owner's rotator has the
  angles of \<^verbatim>\<open>GetRotator()\<close> of the object and the owner's matrix is the composition for
  its present members. Likewise for a rotator object, with the owner's quaternion
  compared by \<^verbatim>\<open>operator==\<close>.
\<close>

definition owner_agrees_q :: "qaddr \<Rightarrow> nat \<Rightarrow> world \<Rightarrow> bool" where
  "owner_agrees_q this t w \<longleftrightarrow>
     pitch (rotators w (Rotator_of t)) = pitch (GetRotator (quats w this))
     \<and> yaw (rotators w (Rotator_of t)) = yaw (GetRotator (quats w this))
     \<and> roll (rotators w (Rotator_of t)) = roll (GetRotator (quats w this))
     \<and> mtx (transforms w t) = composed t w"

definition owner_agrees_r :: "raddr \<Rightarrow> nat \<Rightarrow> world \<Rightarrow> bool" where
  "owner_agrees_r this t w \<longleftrightarrow>
     Quat_eq (quats w (Rotation_of t)) (Quaternion (rotators w this))
     \<and> mtx (transforms w t) = composed t w"

text \<open>
  A store to start from in the examples: every object has the value its default
  constructor gives it and nothing is bound.
\<close>

definition blank_world :: world where
  "blank_world =
     \<lparr>quats = (\<lambda>a. Quat_default), rotators = (\<lambda>a. Rotator_default),
      transforms = (\<lambda>t. \<lparr>position = Vec3_make 0 0 0, scale = Vec3_make 1 1 1, Tag = [],
                           mtx = Mtx44_default, notifications = 0\<rparr>)\<rparr>"


section \<open>Text streams and the serialized form of a Transform\<close>

text \<open>
  The members of \<^verbatim>\<open>std::istream\<close> that \<^verbatim>\<open>Transform::Deserialize\<close> calls, after the C++
  standard library (C++11). A stream is its character sequence, the read position and
  the two state bits the calls consult. A call on a stream that is not \<open>good\<close> sets
  \<open>failbit\<close> and extracts nothing, and leaves its output argument as it was.
\<close>

record istream =
  buffer :: string
  gpos :: nat
  eofbit :: bool
  failbit :: bool

definition good :: "istream \<Rightarrow> bool" where
  "good s \<longleftrightarrow> \<not> eofbit s \<and> \<not> failbit s"

text \<open>
  A fresh \<^verbatim>\<open>std::istringstream is(input)\<close>; also \<^verbatim>\<open>is.clear(); is.str(input)\<close>, which
  resets the state bits and replaces the contents.
\<close>

definition istringstream :: "string \<Rightarrow> istream" where
  "istringstream str = \<lparr>buffer = str, gpos = 0, eofbit = False, failbit = False\<rparr>"

definition newline :: char where
  "newline = CHR 0x0A"

text \<open>
  \<^verbatim>\<open>std::getline(s, str, delim)\<close>: the characters up to the delimiter, which is
  extracted and dropped; at the end of the stream \<open>eofbit\<close> is set, and \<open>failbit\<close> too
  when nothing was extracted.
\<close>

definition getline :: "istream \<Rightarrow> string \<Rightarrow> char \<Rightarrow> string \<times> istream" where
  "getline s str delim =
     (if \<not> good s then (str, s\<lparr>failbit := True\<rparr>)
      else (let rest = drop (gpos s) (buffer s);
                line = takeWhile (\<lambda>c. c \<noteq> delim) rest in
            if length line < length rest
            then (line, s\<lparr>gpos := gpos s + length line + 1\<rparr>)
            else (line, s\<lparr>gpos := gpos s + length line, eofbit := True,
                          failbit := (line = [])\<rparr>)))"

text \<open>\<^verbatim>\<open>tellg\<close> (\<open>None\<close> is \<^verbatim>\<open>pos_type(-1)\<close>) and \<^verbatim>\<open>seekg\<close>, which clears \<open>eofbit\<close> first.\<close>

definition tellg :: "istream \<Rightarrow> nat option \<times> istream" where
  "tellg s = (if \<not> good s then (None, s\<lparr>failbit := True\<rparr>) else (Some (gpos s), s))"

definition seekg :: "istream \<Rightarrow> nat option \<Rightarrow> istream" where
  "seekg s pos =
     (let s1 = s\<lparr>eofbit := False\<rparr> in
      if failbit s1 then s1
      else (case pos of
              None \<Rightarrow> s1\<lparr>failbit := True\<rparr>
            | Some p \<Rightarrow> if p \<le> length (buffer s1) then s1\<lparr>gpos := p\<rparr>
                        else s1\<lparr>failbit := True\<rparr>))"

definition isspace :: "char \<Rightarrow> bool" where
  "isspace c \<longleftrightarrow> c \<in> set [CHR '' '', CHR 0x09, CHR 0x0A, CHR 0x0B, CHR 0x0C, CHR 0x0D]"

text \<open>\<^verbatim>\<open>is >> str\<close> for a string: leading white space is skipped, then one word is read.\<close>

definition extract_string :: "istream \<Rightarrow> string \<Rightarrow> string \<times> istream" where
  "extract_string s str =
     (if \<not> good s then (str, s\<lparr>failbit := True\<rparr>)
      else (let rest = drop (gpos s) (buffer s);
                ws = takeWhile isspace rest;
                rest1 = dropWhile isspace rest in
            if rest1 = []
            then (str, s\<lparr>gpos := gpos s + length ws, eofbit := True, failbit := True\<rparr>)
            else (let tok = takeWhile (\<lambda>c. \<not> isspace c) rest1 in
                  (tok, s\<lparr>gpos := gpos s + length ws + length tok,
                          eofbit := (length tok = length rest1)\<rparr>))))"

text \<open>
  \<^verbatim>\<open>is >> v\<close> for a float. The conversion of characters to a number is the library's:
  \<open>parse_float\<close> is given the characters after the white space and returns the value
  and how many characters it took, or \<open>None\<close> when they do not start a number; then
  0 is stored and \<open>failbit\<close> is set.
\<close>

definition extract_float ::
  "(string \<Rightarrow> (real \<times> nat) option) \<Rightarrow> istream \<Rightarrow> real \<Rightarrow> real \<times> istream" where
  "extract_float parse_float s v =
     (if \<not> good s then (v, s\<lparr>failbit := True\<rparr>)
      else (let rest = drop (gpos s) (buffer s);
                ws = takeWhile isspace rest;
                rest1 = dropWhile isspace rest in
            if rest1 = []
            then (v, s\<lparr>gpos := gpos s + length ws, eofbit := True, failbit := True\<rparr>)
            else (case parse_float rest1 of
                    None \<Rightarrow> (0, s\<lparr>gpos := gpos s + length ws, failbit := True\<rparr>)
                  | Some (a, n) \<Rightarrow>
                      (a, s\<lparr>gpos := gpos s + length ws + n,
                            eofbit := (length rest1 \<le> n)\<rparr>))))"

text \<open>
  \<^verbatim>\<open>input.substr(input.find(":") + 1)\<close>: without a colon \<^verbatim>\<open>find\<close> returns \<^verbatim>\<open>npos\<close>, the sum
  wraps to 0 and the whole string is returned.
\<close>

definition after_colon :: "string \<Rightarrow> string" where
  "after_colon input =
     (if CHR '':'' \<in> set input
      then drop (length (takeWhile (\<lambda>c. c \<noteq> CHR '':'') input) + 1) input
      else input)"

text \<open>
  \<^verbatim>\<open>std::stof\<close> is the library's too: \<open>stof\<close> returns \<open>None\<close> where it throws. The three
  statements \<^verbatim>\<open>std::getline(is, input, ','); v = std::stof(input);\<close> that fill a vector
  are \<open>read3\<close>.
\<close>

datatype error = stof_exception

definition read3 ::
  "(string \<Rightarrow> real option) \<Rightarrow> istream \<Rightarrow> string \<Rightarrow> error + (Vec3 \<times> string)" where
  "read3 stof is input =
     (let (input, is) = getline is input CHR '','' in
      case stof input of None \<Rightarrow> Inl stof_exception | Some a \<Rightarrow>
     (let (input, is) = getline is input CHR '','' in
      case stof input of None \<Rightarrow> Inl stof_exception | Some b \<Rightarrow>
     (let (input, is) = getline is input CHR '','' in
      case stof input of None \<Rightarrow> Inl stof_exception | Some c \<Rightarrow>
        Inr (\<lparr>vx = a, vy = b, vz = c\<rparr>, input))))"

text \<open>
  \<^verbatim>\<open>Transform::Deserialize\<close> up to the comment \<^verbatim>\<open>// rotation\<close>: the tag, position and
  scale lines. The result carries the store, the file and the variable \<^verbatim>\<open>input\<close>.
\<close>

definition Deserialize_header ::
  "(string \<Rightarrow> real option) \<Rightarrow> nat \<Rightarrow> istream \<Rightarrow> string \<Rightarrow> world
   \<Rightarrow> error + (world \<times> istream \<times> string)" where
  "Deserialize_header stof this file input w =
     (let (input, file) = getline file input newline;
          str = after_colon input;
          w = w\<lparr>transforms := (transforms w)(this := (transforms w this)\<lparr>Tag := str\<rparr>)\<rparr>;
          (input, file) = getline file input newline;
          input = after_colon input in
      case read3 stof (istringstream input) input of Inl e \<Rightarrow> Inl e | Inr (pos, input) \<Rightarrow>
     (let w = w\<lparr>transforms := (transforms w)(this := (transforms w this)\<lparr>position := pos\<rparr>)\<rparr>;
          (input, file) = getline file input newline;
          input = after_colon input in
      case read3 stof (istringstream input) input of Inl e \<Rightarrow> Inl e | Inr (sc, input) \<Rightarrow>
        Inr (w\<lparr>transforms := (transforms w)(this := (transforms w this)\<lparr>scale := sc\<rparr>)\<rparr>,
             file, input)))"

text \<open>
  The rest of \<^verbatim>\<open>Transform::Deserialize\<close>, from \<^verbatim>\<open>auto t = file.tellg();\<close> on.
  \<open>Component_Deserialize\<close> stands for the base class member, whose source is not at
  hand; it is given the file and \<^verbatim>\<open>input\<close> and returns the file.
\<close>

definition Deserialize_rotation ::
  "(string \<Rightarrow> (real \<times> nat) option) \<Rightarrow> (istream \<Rightarrow> string \<Rightarrow> istream) \<Rightarrow> nat
   \<Rightarrow> istream \<Rightarrow> string \<Rightarrow> world \<Rightarrow> world \<times> istream" where
  "Deserialize_rotation parse_float Component_Deserialize this file input w =
     (let (t, file) = tellg file;
          (input, file) = getline file input newline;
          is = istringstream input;
          (tmp, is) = extract_string is [] in
      if tmp \<noteq> ''ROTATION:''
      then (w, seekg file t)
      else (let r = rotators w (Rotator_of this);
                (p, is) = extract_float parse_float is (pitch r);
                (y, is) = extract_float parse_float is (yaw r);
                (ro, is) = extract_float parse_float is (roll r);
                w = w\<lparr>rotators := (rotators w)
                      (Rotator_of this := r\<lparr>pitch := p, yaw := y, roll := ro\<rparr>)\<rparr>;
                w = Rotator_UpdateBoundTransform (Rotator_of this) w;
                w = UpdateMtx this w in
            (w, Component_Deserialize file input)))"

definition Deserialize ::
  "(string \<Rightarrow> real option) \<Rightarrow> (string \<Rightarrow> (real \<times> nat) option)
   \<Rightarrow> (istream \<Rightarrow> string \<Rightarrow> istream) \<Rightarrow> nat
   \<Rightarrow> istream \<Rightarrow> string \<Rightarrow> world \<Rightarrow> error + (world \<times> istream)" where
  "Deserialize stof parse_float Component_Deserialize this file input w =
     (case Deserialize_header stof this file input w of
        Inl e \<Rightarrow> Inl e
      | Inr (w, file, input) \<Rightarrow>
          Inr (Deserialize_rotation parse_float Component_Deserialize this file input w))"

text \<open>
  The line that \<^verbatim>\<open>Transform::Serialize\<close> writes for the rotation; \<open>show_float\<close> is the
  library's formatting of a float by \<^verbatim>\<open>operator<<\<close>.
\<close>

definition Serialize_rotation :: "(real \<Rightarrow> string) \<Rightarrow> Rotator \<Rightarrow> string" where
  "Serialize_rotation show_float r =
     ''ROTATION: '' @ show_float (pitch r) @ '' '' @ show_float (yaw r) @ '' ''
       @ show_float (roll r) @ [newline]"

text \<open>
  The line that \<open>Deserialize_rotation\<close> reads, the file after it, and the first word of
  the line, which it compares with the label.
\<close>

definition next_line :: "istream \<Rightarrow> string \<Rightarrow> string \<times> istream" where
  "next_line file input = getline (snd (tellg file)) input newline"

definition next_label :: "istream \<Rightarrow> string \<Rightarrow> string" where
  "next_label file input =
     fst (extract_string (istringstream (fst (next_line file input))) [])"


text \<open>
  Two files for the examples: a save file written before the rotation line existed,
  and one with the line. \<open>loaded_world\<close> is a fresh Transform at address 0 after the
  tag, position and scale lines were read with a \<^verbatim>\<open>stof\<close> that answers 1.
\<close>

definition legacy_file :: istream where
  "legacy_file = istringstream (''TAG:a'' @ [newline] @ ''POSITION:1,2,3'' @ [newline]
      @ ''SCALE:1,1,1'' @ [newline] @ ''[SPRITE]'' @ [newline])"

definition current_file :: istream where
  "current_file = istringstream (''TAG:a'' @ [newline] @ ''POSITION:1,2,3'' @ [newline]
      @ ''SCALE:1,1,1'' @ [newline] @ ''ROTATION: 5 5 5'' @ [newline])"

definition loaded_world :: world where
  "loaded_world =
     (let w = Transform_ctor 0 blank_world in
      w\<lparr>transforms := (transforms w)
          (0 := (transforms w 0)\<lparr>Tag := ''a'', position := Vec3_make 1 1 1,
                                  scale := Vec3_make 1 1 1\<rparr>)\<rparr>)"


section \<open>Properties of the value operations\<close>

text \<open>
  C9. After \<^verbatim>\<open>p.EnforceShortestArcWith(q)\<close> the object is, component for component
  (\<^verbatim>\<open>operator==\<close>), the old \<open>p\<close> or its negation \<^verbatim>\<open>-p\<close>, its binding is the one it had,
  and its inner product with \<open>q\<close> is not negative.
\<close>

theorem EnforceShortestArcWith_sign:
  "(Quat_eq (EnforceShortestArcWith p q) p \<or> Quat_eq (EnforceShortestArcWith p q) (Quat_neg p))
   \<and> mp_BoundTransform_q (EnforceShortestArcWith p q) = mp_BoundTransform_q p
   \<and> 0 \<le> Quat_dot (EnforceShortestArcWith p q) q"
  by (simp add: EnforceShortestArcWith_def Quat_eq_def Quat_neg_def Quat_make_def
      Quat_dot_def Let_def)


subsection \<open>Angle reduction\<close>

lemma truncf_bounds_nonneg:
  "0 \<le> r \<Longrightarrow> 0 \<le> r - of_int (truncf r) \<and> r - of_int (truncf r) < 1"
  unfolding truncf_def by (simp; linarith)

lemma truncf_bounds_neg:
  "r < 0 \<Longrightarrow> - 1 < r - of_int (truncf r) \<and> r - of_int (truncf r) \<le> 0"
  unfolding truncf_def by (simp; linarith)

lemma fmodf_nonneg:
  assumes b: "0 < b" and a: "0 \<le> a"
  shows "0 \<le> fmodf a b \<and> fmodf a b < b"
proof -
  have e: "fmodf a b = b * (a / b - of_int (truncf (a / b)))"
    using b by (simp add: fmodf_def algebra_simps)
  from a b have "0 \<le> a / b" by simp
  from truncf_bounds_nonneg[OF this] b show ?thesis
    unfolding e by (simp add: zero_le_mult_iff)
qed

lemma fmodf_neg:
  assumes b: "0 < b" and a: "a < 0"
  shows "- b < fmodf a b \<and> fmodf a b \<le> 0"
proof -
  have e: "fmodf a b = b * (a / b - of_int (truncf (a / b)))"
    using b by (simp add: fmodf_def algebra_simps)
  from a b have "a / b < 0" by (simp add: divide_neg_pos)
  from truncf_bounds_neg[OF this]
  have d: "- 1 < a / b - of_int (truncf (a / b))" "a / b - of_int (truncf (a / b)) \<le> 0"
    by blast+
  from d(1) b have "b * (- 1) < b * (a / b - of_int (truncf (a / b)))"
    by (rule mult_strict_left_mono)
  moreover from b d(2) have "b * (a / b - of_int (truncf (a / b))) \<le> 0"
    by (simp add: mult_nonneg_nonpos)
  ultimately show ?thesis unfolding e by simp
qed

text \<open>
  In exact arithmetic \<open>ClampAxis\<close> lands in \<open>[0, 360)\<close>, and \<open>NormalizeAxis\<close> in the closed
  interval \<open>[-180, 180]\<close>.
\<close>

lemma ClampAxis_range: "0 \<le> ClampAxis a \<and> ClampAxis a < 360"
  using fmodf_nonneg[of 360 a] fmodf_neg[of 360 a]
  by (cases "0 \<le> a") (auto simp: ClampAxis_def Let_def)

lemma NormalizeAxis_range: "- 180 \<le> NormalizeAxis a \<and> NormalizeAxis a \<le> 180"
  using fmodf_nonneg[of 360 a] fmodf_neg[of 360 a]
  by (cases "0 \<le> a") (auto simp: NormalizeAxis_def Let_def)

text \<open>\<open>NormalizeAxis\<close> changes its argument by a multiple of 360.\<close>

lemma NormalizeAxis_congruent: "\<exists>k::int. NormalizeAxis a = a + 360 * of_int k"
proof -
  let ?n = "truncf (a / 360)"
  have f: "fmodf a 360 = a + 360 * of_int (- ?n)"
    by (simp add: fmodf_def)
  have "NormalizeAxis a = a + 360 * of_int (- ?n - 1)
        \<or> NormalizeAxis a = a + 360 * of_int (- ?n + 1)
        \<or> NormalizeAxis a = a + 360 * of_int (- ?n)"
    unfolding NormalizeAxis_def Let_def f by simp
  then show ?thesis
    by blast
qed

text \<open>
  C4. \<^verbatim>\<open>NormalizeAxis\<close> is documented to return a value in \<open>(-180, 180]\<close>. At the angle
  \<open>-180\<close> the remainder of the division by 360 is \<open>-180\<close>, neither test of the boundary
  correction fires (\<^verbatim>\<open>angle < -180.f\<close> is strict), and the function returns \<open>-180\<close>,
  outside the half-open interval.
\<close>

theorem NormalizeAxis_minus_180:
  "NormalizeAxis (- 180) = - 180 \<and> \<not> (- 180 < NormalizeAxis (- 180))"
  by (simp add: NormalizeAxis_def fmodf_def truncf_def Let_def)


subsection \<open>Inverse\<close>

text \<open>
  C7. For a quaternion of unit length \<^verbatim>\<open>q * q.Inverse()\<close> is the Identity; for one that
  passes \<^verbatim>\<open>IsNormalized\<close> the product is \<open>(|q|\<^sup>2, 0, 0, 0)\<close>, which \<^verbatim>\<open>Equals\<close> accepts as
  the Identity at the tolerance of \<^verbatim>\<open>IsNormalized\<close>; for one that does not pass,
  \<^verbatim>\<open>Inverse\<close> returns the Identity, and no path of it reports an error.
\<close>

theorem Inverse_product:
  "(SizeSquared q = 1 \<longrightarrow> Quat_mul q (Inverse q) = Identity)
   \<and> (IsNormalized q \<longrightarrow>
        Quat_mul q (Inverse q) = Quat_make (SizeSquared q) 0 0 0
        \<and> Quat_Equals (Quat_mul q (Inverse q)) Identity THRESH_QUAT_NORMALIZED)
   \<and> (\<not> IsNormalized q \<longrightarrow> Inverse q = Identity)"
proof (intro conjI impI)
  assume "SizeSquared q = 1"
  then show "Quat_mul q (Inverse q) = Identity"
    by (simp add: Inverse_def Quat_mul_def Quat_make_def SizeSquared_def IsNormalized_def
        THRESH_QUAT_NORMALIZED_def Identity_def Quat_default_def)
next
  assume n: "IsNormalized q"
  then show p: "Quat_mul q (Inverse q) = Quat_make (SizeSquared q) 0 0 0"
    by (simp add: Inverse_def Quat_mul_def Quat_make_def SizeSquared_def)
  from n show "Quat_Equals (Quat_mul q (Inverse q)) Identity THRESH_QUAT_NORMALIZED"
    unfolding p
    by (simp add: Quat_Equals_def FloatEqual_def Quat_make_def Identity_def Quat_default_def
        IsNormalized_def THRESH_QUAT_NORMALIZED_def abs_minus_commute)
next
  assume "\<not> IsNormalized q"
  then show "Inverse q = Identity"
    by (simp add: Inverse_def Identity_def Quat_copy_def Quat_default_def)
qed

theorem Inverse_product_witness:
  "SizeSquared (Quat_make 0 1 0 0) = 1
   \<and> Quat_mul (Quat_make 0 1 0 0) (Inverse (Quat_make 0 1 0 0)) = Identity
   \<and> IsNormalized (Quat_make 0 1 0 0)
   \<and> Quat_Equals (Quat_mul (Quat_make 0 1 0 0) (Inverse (Quat_make 0 1 0 0))) Identity
        THRESH_QUAT_NORMALIZED
   \<and> \<not> IsNormalized (Quat_make 2 0 0 0)
   \<and> Inverse (Quat_make 2 0 0 0) = Identity"
proof -
  have a: "SizeSquared (Quat_make 0 1 0 0) = 1"
    by (simp add: SizeSquared_def Quat_make_def)
  have b: "IsNormalized (Quat_make 0 1 0 0)"
    by (simp add: IsNormalized_def SizeSquared_def Quat_make_def THRESH_QUAT_NORMALIZED_def)
  have c: "\<not> IsNormalized (Quat_make 2 0 0 0)"
    by (simp add: IsNormalized_def SizeSquared_def Quat_make_def THRESH_QUAT_NORMALIZED_def)
  from a b c Inverse_product [of "Quat_make 0 1 0 0"] Inverse_product [of "Quat_make 2 0 0 0"]
  show ?thesis by blast
qed


subsection \<open>Axis and angle\<close>

text \<open>
  C2, as the claim states it, fails: the quaternion built from the axis \<open>(1, 0, 0)\<close> and
  the angle \<open>pi\<close> is \<open>(w = 0, x = 0, y = -1, z = 0)\<close>, and \<^verbatim>\<open>RotateVector\<close> sends the axis to
  \<open>(-1, 0, 0)\<close>.
\<close>

theorem RotateVector_axis_counterexample:
  "\<not> Vec3_Equals (RotateVector (Quat_axis_angle (Vec3_make 1 0 0) pi) (Vec3_make 1 0 0))
        (Vec3_make 1 0 0) KINDA_SMALL_NUMBER"
  by (simp add: Vec3_Equals_def RotateVector_def Quat_axis_angle_def Vec3_make_def
      Vec3_add_def Vec3_scale_def Vec3_cross_def KINDA_SMALL_NUMBER_def Let_def)

lemma RotateVector_axis_pi:
  "RotateVector (Quat_axis_angle (Vec3_make 1 0 0) pi) (Vec3_make 1 0 0) = Vec3_make (- 1) 0 0"
  by (simp add: RotateVector_def Quat_axis_angle_def Vec3_make_def
      Vec3_add_def Vec3_scale_def Vec3_cross_def Let_def)

text \<open>
  \<^verbatim>\<open>GetRotationAxis\<close> undoes the mapping of the constructor: it returns the axis the
  quaternion was constructed from.
\<close>

lemma GetRotationAxis_axis_angle:
  assumes "KINDA_SMALL_NUMBER < sin (AngleRad / 2)"
  shows "GetRotationAxis (Quat_axis_angle Axis AngleRad) = Axis"
proof -
  let ?s = "sin (AngleRad / 2)" and ?c = "cos (AngleRad / 2)"
  from assms have pos: "0 < ?s" by (simp add: KINDA_SMALL_NUMBER_def)
  have "?s\<^sup>2 + ?c\<^sup>2 = 1" by (rule sin_cos_squared_add)
  then have e: "1 - ?c * ?c = ?s\<^sup>2" by (simp add: power2_eq_square)
  have m: "Max (1 - ?c * ?c) 0 = ?s\<^sup>2" unfolding e by (simp add: Max_def)
  have r: "sqrt (Max (1 - ?c * ?c) 0) = ?s" unfolding m using pos by simp
  show ?thesis
    using assms pos
    by (simp add: GetRotationAxis_def Quat_axis_angle_def r Vec3_make_def Let_def)
qed


text \<open>
  C2, amended. The constructor stores the axis with its components mapped,
  \<open>(x, y, z) = s * (-Axis.z, -Axis.x, Axis.y)\<close>, and \<^verbatim>\<open>RotateVector\<close> turns about the stored
  vector: for every axis and every angle the vector \<open>(-Axis.z, -Axis.x, Axis.y)\<close> is the
  one that \<^verbatim>\<open>RotateVector\<close> returns unchanged.
\<close>

theorem RotateVector_mapped_axis:
  "RotateVector (Quat_axis_angle Axis AngleRad) (Vec3_make (- vz Axis) (- vx Axis) (vy Axis))
   = Vec3_make (- vz Axis) (- vx Axis) (vy Axis)"
  by (simp add: RotateVector_def Quat_axis_angle_def Vec3_make_def
      Vec3_add_def Vec3_scale_def Vec3_cross_def Let_def)


subsection \<open>The branches of GetRotator\<close>

lemma RAD2DEG_bounds:
  assumes a: "- (pi / 2) < r" and b: "r < pi / 2"
  shows "- 90 < RAD2DEG r \<and> RAD2DEG r < 90"
proof -
  have p: "0 < pi" by simp
  from a p have "- 90 * pi < r * 180" by simp
  then have 1: "- 90 < r * 180 / pi" using p by (simp add: pos_less_divide_eq)
  from b p have "r * 180 < 90 * pi" by simp
  then have 2: "r * 180 / pi < 90" using p by (simp add: pos_divide_less_eq)
  from 1 2 show ?thesis by (simp add: RAD2DEG_def OVERPI_def)
qed

text \<open>
  C5. With the singularity test value \<open>st = z * x - w * y\<close>: below \<open>-0.4999995\<close> the pitch
  is exactly \<open>-90\<close>, above \<open>0.4999995\<close> it is exactly \<open>90\<close>; in both cases the yaw is
  \<open>atan2f (yawY, yawX)\<close> in degrees and the roll is \<open>\<minusplus>yaw - 2 * atan2f (x, w)\<close>, in
  degrees, moved by a multiple of 360 into \<open>[-180, 180]\<close>. Otherwise the pitch is
  \<open>asin (2 * st)\<close> in degrees, whose argument lies strictly inside \<open>[-1, 1]\<close>, so that the
  pitch lies strictly between \<open>-90\<close> and \<open>90\<close>, and yaw and roll are the two \<open>atan2f\<close>
  values of the general case in degrees. The conversion to degrees is written out as
  the factor \<open>180 / pi\<close>.
\<close>

theorem GetRotator_branches:
  fixes q :: Quat
  defines "st \<equiv> qz q * qx q - qw q * qy q"
    and "y \<equiv> atan2f (2 * (qw q * qz q + qx q * qy q))
                      (1 - 2 * (qy q * qy q + qz q * qz q)) * 180 / pi"
    and "r \<equiv> 2 * atan2f (qx q) (qw q) * 180 / pi"
  shows "(st < - (4999995 / 10000000) \<longrightarrow>
            pitch (GetRotator q) = - 90 \<and> yaw (GetRotator q) = y \<and>
            - 180 \<le> roll (GetRotator q) \<and> roll (GetRotator q) \<le> 180 \<and>
            (\<exists>k::int. roll (GetRotator q) = - y - r + 360 * of_int k))
       \<and> (4999995 / 10000000 < st \<longrightarrow>
            pitch (GetRotator q) = 90 \<and> yaw (GetRotator q) = y \<and>
            - 180 \<le> roll (GetRotator q) \<and> roll (GetRotator q) \<le> 180 \<and>
            (\<exists>k::int. roll (GetRotator q) = y - r + 360 * of_int k))
       \<and> (- (4999995 / 10000000) \<le> st \<and> st \<le> 4999995 / 10000000 \<longrightarrow>
            pitch (GetRotator q) = arcsin (2 * st) * 180 / pi \<and>
            - 90 < pitch (GetRotator q) \<and> pitch (GetRotator q) < 90 \<and>
            yaw (GetRotator q) = y \<and>
            roll (GetRotator q) =
              atan2f (- 2 * (qw q * qx q + qy q * qz q))
                     (1 - 2 * (qx q * qx q + qy q * qy q)) * 180 / pi)"
proof (intro conjI impI)
  assume a: "st < - (4999995 / 10000000)"
  then have g: "GetRotator q = \<lparr>pitch = - 90, yaw = y, roll = NormalizeAxis (- y - r),
                              mp_BoundTransform_r = None\<rparr>"
    by (simp add: GetRotator_def st_def y_def r_def Let_def SINGULARITY_THRESHOLD_def
        RAD2DEG_def OVERPI_def)
  show "pitch (GetRotator q) = - 90" "yaw (GetRotator q) = y"
    unfolding g by simp_all
  show "- 180 \<le> roll (GetRotator q)" "roll (GetRotator q) \<le> 180"
    unfolding g using NormalizeAxis_range[of "- y - r"] by simp_all
  show "\<exists>k::int. roll (GetRotator q) = - y - r + 360 * of_int k"
    unfolding g using NormalizeAxis_congruent[of "- y - r"] by simp
next
  assume a: "4999995 / 10000000 < st"
  then have g: "GetRotator q = \<lparr>pitch = 90, yaw = y, roll = NormalizeAxis (y - r),
                              mp_BoundTransform_r = None\<rparr>"
    by (simp add: GetRotator_def st_def y_def r_def Let_def SINGULARITY_THRESHOLD_def
        RAD2DEG_def OVERPI_def)
  show "pitch (GetRotator q) = 90" "yaw (GetRotator q) = y"
    unfolding g by simp_all
  show "- 180 \<le> roll (GetRotator q)" "roll (GetRotator q) \<le> 180"
    unfolding g using NormalizeAxis_range[of "y - r"] by simp_all
  show "\<exists>k::int. roll (GetRotator q) = y - r + 360 * of_int k"
    unfolding g using NormalizeAxis_congruent[of "y - r"] by simp
next
  assume a: "- (4999995 / 10000000) \<le> st \<and> st \<le> 4999995 / 10000000"
  then show p: "pitch (GetRotator q) = arcsin (2 * st) * 180 / pi"
    and "yaw (GetRotator q) = y"
    and "roll (GetRotator q) =
              atan2f (- 2 * (qw q * qx q + qy q * qz q))
                     (1 - 2 * (qx q * qx q + qy q * qy q)) * 180 / pi"
    by (simp_all add: GetRotator_def st_def y_def Let_def SINGULARITY_THRESHOLD_def
        RAD2DEG_def OVERPI_def)
  from a have "- 1 < 2 * st" "2 * st < 1"
    by simp_all
  from arcsin_lt_bounded[OF this]
  have "- (pi / 2) < arcsin (2 * st)" "arcsin (2 * st) < pi / 2"
    by blast+
  from RAD2DEG_bounds[OF this]
  show "- 90 < pitch (GetRotator q)" "pitch (GetRotator q) < 90"
    unfolding p by (simp_all add: RAD2DEG_def OVERPI_def)
qed

lemma reduced_unique:
  fixes v a b :: real and k :: int
  assumes "v = a + 360 * of_int k" "- 180 \<le> v" "v \<le> 180" "- 180 < b" "b < 180"
    and "a = b + 360 * of_int m"
  shows "v = b"
proof -
  have "v = b + 360 * of_int (k + m)"
    using assms(1,6) by simp
  then have "- 360 < 360 * (of_int (k + m) :: real)" "360 * (of_int (k + m) :: real) < 360"
    using assms(2-5) by linarith+
  then have "- 1 < (of_int (k + m) :: real)" "(of_int (k + m) :: real) < 1"
    by simp_all
  then have "- 1 < k + m" "k + m < 1"
    by linarith+
  then have "k + m = 0"
    by linarith
  with \<open>v = b + 360 * of_int (k + m)\<close> show ?thesis
    by simp
qed

theorem GetRotator_branches_witness:
  "qz (Quat_make 1 1 1 (- 1)) * qx (Quat_make 1 1 1 (- 1))
     - qw (Quat_make 1 1 1 (- 1)) * qy (Quat_make 1 1 1 (- 1)) < - (4999995 / 10000000)
   \<and> pitch (GetRotator (Quat_make 1 1 1 (- 1))) = - 90
   \<and> yaw (GetRotator (Quat_make 1 1 1 (- 1))) = 180
   \<and> roll (GetRotator (Quat_make 1 1 1 (- 1))) = 90
   \<and> 4999995 / 10000000 < qz (Quat_make 1 (- 1) (- 1) (- 1)) * qx (Quat_make 1 (- 1) (- 1) (- 1))
     - qw (Quat_make 1 (- 1) (- 1) (- 1)) * qy (Quat_make 1 (- 1) (- 1) (- 1))
   \<and> pitch (GetRotator (Quat_make 1 (- 1) (- 1) (- 1))) = 90
   \<and> yaw (GetRotator (Quat_make 1 (- 1) (- 1) (- 1))) = 180
   \<and> roll (GetRotator (Quat_make 1 (- 1) (- 1) (- 1))) = - 90
   \<and> qz (Quat_make (1 / 2) 0 (- (1 / 2)) (1 / 2)) * qx (Quat_make (1 / 2) 0 (- (1 / 2)) (1 / 2))
     - qw (Quat_make (1 / 2) 0 (- (1 / 2)) (1 / 2)) * qy (Quat_make (1 / 2) 0 (- (1 / 2)) (1 / 2))
     = 1 / 4
   \<and> pitch (GetRotator (Quat_make (1 / 2) 0 (- (1 / 2)) (1 / 2))) = 30
   \<and> yaw (GetRotator (Quat_make (1 / 2) 0 (- (1 / 2)) (1 / 2))) = 90
   \<and> roll (GetRotator (Quat_make (1 / 2) 0 (- (1 / 2)) (1 / 2))) = 45"
proof -
  let ?a = "Quat_make 1 1 1 (- 1)" and ?b = "Quat_make 1 (- 1) (- 1) (- 1)"
    and ?c = "Quat_make (1 / 2) 0 (- (1 / 2)) (1 / 2)"
  have f: "qw ?a = 1" "qx ?a = 1" "qy ?a = 1" "qz ?a = - 1"
    "qw ?b = 1" "qx ?b = - 1" "qy ?b = - 1" "qz ?b = - 1"
    "qw ?c = 1 / 2" "qx ?c = 0" "qy ?c = - (1 / 2)" "qz ?c = 1 / 2"
    by (simp_all add: Quat_make_def)
  have t: "atan2f 0 (- 3) = pi" "atan2f 1 1 = pi / 4" "atan2f (- 1) 1 = - (pi / 4)"
    "atan2f (1 / 2) 0 = pi / 2" "atan2f (1 / 2) (1 / 2) = pi / 4"
    by (simp_all add: atan2f_def arctan_minus arctan_one)
  note A = GetRotator_branches[of ?a, unfolded f]
  have a0: "(- 1) * 1 - 1 * 1 < - (4999995 / 10000000 :: real)"
    by simp
  from A a0 have a1: "pitch (GetRotator ?a) = - 90"
    and a2: "yaw (GetRotator ?a) = atan2f (2 * (1 * - 1 + 1 * 1)) (1 - 2 * (1 * 1 + - 1 * - 1)) * 180 / pi"
    and a3: "- 180 \<le> roll (GetRotator ?a)" "roll (GetRotator ?a) \<le> 180"
    and a4: "\<exists>k::int. roll (GetRotator ?a)
               = - (atan2f (2 * (1 * - 1 + 1 * 1)) (1 - 2 * (1 * 1 + - 1 * - 1)) * 180 / pi)
                 - 2 * atan2f 1 1 * 180 / pi + 360 * of_int k"
    by blast+
  have a2': "yaw (GetRotator ?a) = 180"
    unfolding a2 by (simp add: t)
  from a4 obtain k :: int where "roll (GetRotator ?a) = - 270 + 360 * of_int k"
    by (auto simp: t)
  from reduced_unique[OF this a3, of 90 "- 1"] have a3': "roll (GetRotator ?a) = 90"
    by simp
  note B = GetRotator_branches[of ?b, unfolded f]
  have b0: "4999995 / 10000000 < (- 1) * (- 1) - 1 * (- 1 :: real)"
    by simp
  from B b0 have b1: "pitch (GetRotator ?b) = 90"
    and b2: "yaw (GetRotator ?b) = atan2f (2 * (1 * - 1 + - 1 * - 1)) (1 - 2 * (- 1 * - 1 + - 1 * - 1)) * 180 / pi"
    and b3: "- 180 \<le> roll (GetRotator ?b)" "roll (GetRotator ?b) \<le> 180"
    and b4: "\<exists>k::int. roll (GetRotator ?b)
               = atan2f (2 * (1 * - 1 + - 1 * - 1)) (1 - 2 * (- 1 * - 1 + - 1 * - 1)) * 180 / pi
                 - 2 * atan2f (- 1) 1 * 180 / pi + 360 * of_int k"
    by blast+
  have b2': "yaw (GetRotator ?b) = 180"
    unfolding b2 by (simp add: t)
  from b4 obtain k' :: int where "roll (GetRotator ?b) = 270 + 360 * of_int k'"
    by (auto simp: t)
  from reduced_unique[OF this b3, of "- 90" 1] have b3': "roll (GetRotator ?b) = - 90"
    by simp
  note C = GetRotator_branches[of ?c, unfolded f]
  have c0: "- (4999995 / 10000000) \<le> 1 / 2 * 0 - 1 / 2 * - (1 / 2 :: real)
            \<and> 1 / 2 * 0 - 1 / 2 * - (1 / 2 :: real) \<le> 4999995 / 10000000"
    by simp
  from C c0 have c1: "pitch (GetRotator ?c) = arcsin (2 * (1 / 2 * 0 - 1 / 2 * - (1 / 2))) * 180 / pi"
    and c2: "yaw (GetRotator ?c)
             = atan2f (2 * (1 / 2 * (1 / 2) + 0 * - (1 / 2)))
                      (1 - 2 * (- (1 / 2) * - (1 / 2) + 1 / 2 * (1 / 2))) * 180 / pi"
    and c3: "roll (GetRotator ?c)
             = atan2f (- 2 * (1 / 2 * 0 + - (1 / 2) * (1 / 2)))
                      (1 - 2 * (0 * 0 + - (1 / 2) * - (1 / 2))) * 180 / pi"
    by blast+
  have c1': "pitch (GetRotator ?c) = 30"
    unfolding c1 by simp
  have c2': "yaw (GetRotator ?c) = 90"
    unfolding c2 by (simp add: t)
  have c3': "roll (GetRotator ?c) = 45"
    unfolding c3 by (simp add: t)
  show ?thesis
    unfolding f using a1 a2' a3' b1 b2' b3' c1' c2' c3' by simp
qed


subsection \<open>InvSqrt on the bit pattern\<close>

lemma floor_log2:
  assumes "0 < a" "2 powr (of_int k) \<le> a" "a < 2 powr (of_int (k + 1))"
  shows "\<lfloor>log 2 a\<rfloor> = k"
  using floor_log_eq_powr_iff[of a 2 k] assms by simp

lemma float_bits_normal:
  assumes "0 < a" "2 powr (of_int k) \<le> a" "a < 2 powr (of_int (k + 1))"
    and "- 126 \<le> k" "k \<le> 127"
  shows "float_bits a = nat (k + 127) * 2 ^ 23 + nat \<lfloor>(a / 2 powr (of_int k) - 1) * 2 ^ 23\<rfloor>"
proof -
  have e: "\<lfloor>log 2 \<bar>a\<bar>\<rfloor> = k"
    using floor_log2[OF assms(1-3)] assms(1) by simp
  have a: "\<bar>a\<bar> = a" "a \<noteq> 0" "\<not> a < 0"
    using assms(1) by simp_all
  show ?thesis
    unfolding float_bits_def Let_def e
    using assms(4,5) a by simp
qed


lemma float_bits_quarter: "float_bits (1 / 4) = 1048576000"
  using float_bits_normal[of "1 / 4" "- 2"] by (simp add: powr_minus)



lemma bits_float_3ff759df: "bits_float 1073175007 = 16210399 / 8388608"
  by (simp add: bits_float_def Let_def powr_minus)

lemma InvSqrt_quarter: "InvSqrt (1 / 4) = 9428744445616615784033 / 4722366482869645213696"
  by (simp add: InvSqrt_def float_bits_quarter bits_float_3ff759df)







subsection \<open>Slerp\<close>






















lemma Quat_scale_cong: "Quat_eq p q \<Longrightarrow> Quat_scale p k = Quat_scale q k"
  by (simp add: Quat_eq_def Quat_scale_def)










section \<open>Properties of the binding to a Transform\<close>

lemma UpdateMtx_frame:
  "quats (UpdateMtx t w) = quats w" "rotators (UpdateMtx t w) = rotators w"
  by (simp_all add: UpdateMtx_def Let_def)

lemma UpdateMtx_mtx:
  "mtx (transforms (UpdateMtx t w) t) = composed t (UpdateMtx t w)"
  "notifications (transforms (UpdateMtx t w) t) = Suc (notifications (transforms w t))"
  "position (transforms (UpdateMtx t w) t) = position (transforms w t)"
  "scale (transforms (UpdateMtx t w) t) = scale (transforms w t)"
  by (simp_all add: UpdateMtx_def composed_def Let_def)

lemma Quat_UpdateBoundTransform_quats:
  "quats (Quat_UpdateBoundTransform this w) = quats w"
  by (simp add: Quat_UpdateBoundTransform_def UpdateMtx_frame Let_def split: option.split)

lemma Quat_UpdateBoundTransform_bound:
  assumes "mp_BoundTransform_q (quats w this) = Some t"
  shows "pitch (rotators (Quat_UpdateBoundTransform this w) (Rotator_of t)) = pitch (GetRotator (quats w this))"
    and "yaw (rotators (Quat_UpdateBoundTransform this w) (Rotator_of t)) = yaw (GetRotator (quats w this))"
    and "roll (rotators (Quat_UpdateBoundTransform this w) (Rotator_of t)) = roll (GetRotator (quats w this))"
    and "mp_BoundTransform_r (rotators (Quat_UpdateBoundTransform this w) (Rotator_of t))
         = mp_BoundTransform_r (rotators w (Rotator_of t))"
    and "mtx (transforms (Quat_UpdateBoundTransform this w) t) = composed t (Quat_UpdateBoundTransform this w)"
    and "notifications (transforms (Quat_UpdateBoundTransform this w) t) = Suc (notifications (transforms w t))"
  using assms
  by (simp_all add: Quat_UpdateBoundTransform_def UpdateMtx_frame UpdateMtx_mtx Let_def)

lemma Quat_UpdateBoundTransform_unbound:
  "mp_BoundTransform_q (quats w this) = None \<Longrightarrow> Quat_UpdateBoundTransform this w = w"
  by (simp add: Quat_UpdateBoundTransform_def)

lemma Rotator_UpdateBoundTransform_rotators:
  "rotators (Rotator_UpdateBoundTransform this w) = rotators w"
  by (simp add: Rotator_UpdateBoundTransform_def UpdateMtx_frame Let_def split: option.split)

lemma Rotator_UpdateBoundTransform_bound:
  assumes "mp_BoundTransform_r (rotators w this) = Some t"
  shows "qw (quats (Rotator_UpdateBoundTransform this w) (Rotation_of t)) = qw (Quaternion (rotators w this))"
    and "qx (quats (Rotator_UpdateBoundTransform this w) (Rotation_of t)) = qx (Quaternion (rotators w this))"
    and "qy (quats (Rotator_UpdateBoundTransform this w) (Rotation_of t)) = qy (Quaternion (rotators w this))"
    and "qz (quats (Rotator_UpdateBoundTransform this w) (Rotation_of t)) = qz (Quaternion (rotators w this))"
    and "mp_BoundTransform_q (quats (Rotator_UpdateBoundTransform this w) (Rotation_of t))
         = mp_BoundTransform_q (quats w (Rotation_of t))"
    and "mtx (transforms (Rotator_UpdateBoundTransform this w) t) = composed t (Rotator_UpdateBoundTransform this w)"
    and "notifications (transforms (Rotator_UpdateBoundTransform this w) t) = Suc (notifications (transforms w t))"
  using assms
  by (simp_all add: Rotator_UpdateBoundTransform_def UpdateMtx_frame UpdateMtx_mtx Let_def)

lemma Quat_assign_this:
  "quats (Quat_assign this q w) this
   = (quats w this)\<lparr>qx := qx q, qy := qy q, qz := qz q, qw := qw q\<rparr>"
  by (simp add: Quat_assign_def Quat_UpdateBoundTransform_quats)

lemma Rotator_assign_this:
  "rotators (Rotator_assign this r w) this
   = (rotators w this)\<lparr>pitch := pitch r, yaw := yaw r, roll := roll r\<rparr>"
  by (simp add: Rotator_assign_def Rotator_UpdateBoundTransform_rotators)

text \<open>
  A copy-constructed \<^verbatim>\<open>Quat\<close> has the four components of its source and no bound
  Transform. \<^verbatim>\<open>Quat::operator=\<close> and \<^verbatim>\<open>Rotator::operator=\<close> write the components of
  the source into the destination and leave the destination's binding as it was. When
  the destination is bound to a Transform \<open>t\<close>, the assignment propagates: after
  \<^verbatim>\<open>Quat::operator=\<close> the member \<^verbatim>\<open>rotator\<close> of \<open>t\<close> has the angles of \<^verbatim>\<open>GetRotator()\<close> of
  the destination, after \<^verbatim>\<open>Rotator::operator=\<close> the member \<^verbatim>\<open>rotation\<close> of \<open>t\<close> has the
  components of \<^verbatim>\<open>Quaternion()\<close> of the destination, and in both cases the matrix of
  \<open>t\<close> is recomputed and its observers are notified once.
\<close>

lemma assignment_keeps_binding:
  "mp_BoundTransform_q (Quat_copy q) = None \<and> Quat_eq (Quat_copy q) q
   \<and> quats (Quat_assign this q w) this
       = (quats w this)\<lparr>qx := qx q, qy := qy q, qz := qz q, qw := qw q\<rparr>
   \<and> mp_BoundTransform_q (quats (Quat_assign this q w) this) = mp_BoundTransform_q (quats w this)
   \<and> rotators (Rotator_assign rthis r w) rthis
       = (rotators w rthis)\<lparr>pitch := pitch r, yaw := yaw r, roll := roll r\<rparr>
   \<and> mp_BoundTransform_r (rotators (Rotator_assign rthis r w) rthis)
       = mp_BoundTransform_r (rotators w rthis)
   \<and> (mp_BoundTransform_q (quats w this) = Some t \<longrightarrow>
        pitch (rotators (Quat_assign this q w) (Rotator_of t))
          = pitch (GetRotator (quats (Quat_assign this q w) this))
        \<and> yaw (rotators (Quat_assign this q w) (Rotator_of t))
          = yaw (GetRotator (quats (Quat_assign this q w) this))
        \<and> roll (rotators (Quat_assign this q w) (Rotator_of t))
          = roll (GetRotator (quats (Quat_assign this q w) this))
        \<and> mtx (transforms (Quat_assign this q w) t) = composed t (Quat_assign this q w)
        \<and> notifications (transforms (Quat_assign this q w) t)
          = Suc (notifications (transforms w t)))
   \<and> (mp_BoundTransform_r (rotators w rthis) = Some t \<longrightarrow>
        Quat_eq (quats (Rotator_assign rthis r w) (Rotation_of t))
                (Quaternion (rotators (Rotator_assign rthis r w) rthis))
        \<and> mtx (transforms (Rotator_assign rthis r w) t) = composed t (Rotator_assign rthis r w)
        \<and> notifications (transforms (Rotator_assign rthis r w) t)
          = Suc (notifications (transforms w t)))"
proof (intro conjI impI)
  show "mp_BoundTransform_q (Quat_copy q) = None" "Quat_eq (Quat_copy q) q"
    by (simp_all add: Quat_copy_def Quat_eq_def)
  show "quats (Quat_assign this q w) this
       = (quats w this)\<lparr>qx := qx q, qy := qy q, qz := qz q, qw := qw q\<rparr>"
    by (rule Quat_assign_this)
  then show "mp_BoundTransform_q (quats (Quat_assign this q w) this) = mp_BoundTransform_q (quats w this)"
    by simp
  show "rotators (Rotator_assign rthis r w) rthis
       = (rotators w rthis)\<lparr>pitch := pitch r, yaw := yaw r, roll := roll r\<rparr>"
    by (rule Rotator_assign_this)
  then show "mp_BoundTransform_r (rotators (Rotator_assign rthis r w) rthis)
       = mp_BoundTransform_r (rotators w rthis)"
    by simp
next
  assume b: "mp_BoundTransform_q (quats w this) = Some t"
  let ?w1 = "w\<lparr>quats := (quats w)
            (this := (quats w this)\<lparr>qx := qx q, qy := qy q, qz := qz q, qw := qw q\<rparr>)\<rparr>"
  have b1: "mp_BoundTransform_q (quats ?w1 this) = Some t" using b by simp
  have e: "quats (Quat_assign this q w) this = quats ?w1 this"
    by (simp add: Quat_assign_def Quat_UpdateBoundTransform_quats)
  note u = Quat_UpdateBoundTransform_bound[OF b1]
  show "pitch (rotators (Quat_assign this q w) (Rotator_of t))
          = pitch (GetRotator (quats (Quat_assign this q w) this))"
    unfolding e using u(1) by (simp add: Quat_assign_def)
  show "yaw (rotators (Quat_assign this q w) (Rotator_of t))
          = yaw (GetRotator (quats (Quat_assign this q w) this))"
    unfolding e using u(2) by (simp add: Quat_assign_def)
  show "roll (rotators (Quat_assign this q w) (Rotator_of t))
          = roll (GetRotator (quats (Quat_assign this q w) this))"
    unfolding e using u(3) by (simp add: Quat_assign_def)
  show "mtx (transforms (Quat_assign this q w) t) = composed t (Quat_assign this q w)"
    using u(5) by (simp add: Quat_assign_def)
  show "notifications (transforms (Quat_assign this q w) t)
          = Suc (notifications (transforms w t))"
    using u(6) by (simp add: Quat_assign_def)
next
  assume b: "mp_BoundTransform_r (rotators w rthis) = Some t"
  let ?w1 = "w\<lparr>rotators := (rotators w)
            (rthis := (rotators w rthis)\<lparr>pitch := pitch r, yaw := yaw r, roll := roll r\<rparr>)\<rparr>"
  have b1: "mp_BoundTransform_r (rotators ?w1 rthis) = Some t" using b by simp
  have e: "rotators (Rotator_assign rthis r w) rthis = rotators ?w1 rthis"
    by (simp add: Rotator_assign_def Rotator_UpdateBoundTransform_rotators)
  note u = Rotator_UpdateBoundTransform_bound[OF b1]
  show "Quat_eq (quats (Rotator_assign rthis r w) (Rotation_of t))
                (Quaternion (rotators (Rotator_assign rthis r w) rthis))"
    unfolding e Quat_eq_def using u(1-4) by (simp add: Rotator_assign_def)
  show "mtx (transforms (Rotator_assign rthis r w) t) = composed t (Rotator_assign rthis r w)"
    using u(6) by (simp add: Rotator_assign_def)
  show "notifications (transforms (Rotator_assign rthis r w) t)
          = Suc (notifications (transforms w t))"
    using u(7) by (simp add: Rotator_assign_def)
qed

text \<open>
  Every mutating member that ends in \<^verbatim>\<open>UpdateBoundTransform()\<close> leaves the owner in
  agreement with the object it was called on.
\<close>

lemma Quat_UpdateBoundTransform_agrees:
  assumes "mp_BoundTransform_q (quats w this) = Some t"
  shows "owner_agrees_q this t (Quat_UpdateBoundTransform this w)"
  unfolding owner_agrees_q_def
  using Quat_UpdateBoundTransform_bound[OF assms]
  by (simp add: Quat_UpdateBoundTransform_quats)

lemma Rotator_UpdateBoundTransform_agrees:
  assumes "mp_BoundTransform_r (rotators w this) = Some t"
  shows "owner_agrees_r this t (Rotator_UpdateBoundTransform this w)"
  unfolding owner_agrees_r_def Quat_eq_def
  using Rotator_UpdateBoundTransform_bound[OF assms]
  by (simp add: Rotator_UpdateBoundTransform_rotators)

lemma Quat_mutators_propagate:
  assumes b: "mp_BoundTransform_q (quats w this) = Some t"
  shows "owner_agrees_q this t (Quat_assign this q w)"
    and "owner_agrees_q this t (Quat_add_assign this q w)"
    and "owner_agrees_q this t (Quat_sub_assign this q w)"
    and "owner_agrees_q this t (Quat_mul_assign this q w)"
    and "owner_agrees_q this t (Quat_scale_assign this s w)"
    and "owner_agrees_q this t (Quat_div_assign this s w)"
proof -
  show "owner_agrees_q this t (Quat_assign this q w)"
    unfolding Quat_assign_def by (rule Quat_UpdateBoundTransform_agrees) (simp add: b)
  show "owner_agrees_q this t (Quat_add_assign this q w)"
    unfolding Quat_add_assign_def Let_def
    by (rule Quat_UpdateBoundTransform_agrees) (simp add: b)
  show "owner_agrees_q this t (Quat_sub_assign this q w)"
    unfolding Quat_sub_assign_def Let_def
    by (rule Quat_UpdateBoundTransform_agrees) (simp add: b)
  show "owner_agrees_q this t (Quat_mul_assign this q w)"
    unfolding Quat_mul_assign_def
    by (rule Quat_UpdateBoundTransform_agrees) (simp add: b Quat_assign_this)
  show "owner_agrees_q this t (Quat_scale_assign this s w)"
    unfolding Quat_scale_assign_def Let_def
    by (rule Quat_UpdateBoundTransform_agrees) (simp add: b)
  show "owner_agrees_q this t (Quat_div_assign this s w)"
    unfolding Quat_div_assign_def Let_def
    by (rule Quat_UpdateBoundTransform_agrees) (simp add: b)
qed

lemma Rotator_mutators_propagate:
  assumes b: "mp_BoundTransform_r (rotators w this) = Some t"
  shows "owner_agrees_r this t (Rotator_assign this r w)"
    and "owner_agrees_r this t (Rotator_add_assign this r w)"
    and "owner_agrees_r this t (Rotator_sub_assign this r w)"
    and "owner_agrees_r this t (Rotator_scale_assign this s w)"
    and "owner_agrees_r this t (Rotator_Add this dp dy dr w)"
proof -
  show "owner_agrees_r this t (Rotator_assign this r w)"
    unfolding Rotator_assign_def by (rule Rotator_UpdateBoundTransform_agrees) (simp add: b)
  show "owner_agrees_r this t (Rotator_add_assign this r w)"
    unfolding Rotator_add_assign_def Let_def
    by (rule Rotator_UpdateBoundTransform_agrees) (simp add: b)
  show "owner_agrees_r this t (Rotator_sub_assign this r w)"
    unfolding Rotator_sub_assign_def Let_def
    by (rule Rotator_UpdateBoundTransform_agrees) (simp add: b)
  show "owner_agrees_r this t (Rotator_scale_assign this s w)"
    unfolding Rotator_scale_assign_def Let_def
    by (rule Rotator_UpdateBoundTransform_agrees) (simp add: b)
  show "owner_agrees_r this t (Rotator_Add this dp dy dr w)"
    unfolding Rotator_Add_def Let_def
    by (rule Rotator_UpdateBoundTransform_agrees) (simp add: b)
qed


subsection \<open>Copies of a bound Rotator\<close>

text \<open>
  C10. The copy constructor of \<^verbatim>\<open>Quat\<close> and both assignment operators transfer the
  components only (\<open>assignment_keeps_binding\<close>). A copy of a \<^verbatim>\<open>Rotator\<close> is different:
  the copy of the member \<^verbatim>\<open>rotator\<close> of a Transform, and the value that
  \<^verbatim>\<open>GetNormalized()\<close> returns for it, are bound to that Transform. With
  \<^verbatim>\<open>Rotator n(t.rotator); n.Add(0, 180, 0);\<close> on a fresh Transform \<open>t\<close>, the call on the
  copy overwrites the quaternion of \<open>t\<close> with \<open>(0, 0, 0, 1)\<close>, whose rotator has yaw 180,
  while the member \<^verbatim>\<open>rotator\<close> of \<open>t\<close> keeps yaw 0.
\<close>

theorem Rotator_copy_keeps_binding:
  "mp_BoundTransform_r (Rotator_copy (rotators (Transform_ctor 0 blank_world) (Rotator_of 0)))
     = Some 0
   \<and> mp_BoundTransform_r
        (Rotator_GetNormalized (rotators (Transform_ctor 0 blank_world) (Rotator_of 0))) = Some 0
   \<and> Quat_eq
        (quats
          (Rotator_Add (Rotator_at 0) 0 180 0
            ((Transform_ctor 0 blank_world)
               \<lparr>rotators := (rotators (Transform_ctor 0 blank_world))
                  (Rotator_at 0 :=
                     Rotator_copy (rotators (Transform_ctor 0 blank_world) (Rotator_of 0)))\<rparr>))
          (Rotation_of 0))
        (Quat_make 0 0 0 1)
   \<and> yaw (rotators
          (Rotator_Add (Rotator_at 0) 0 180 0
            ((Transform_ctor 0 blank_world)
               \<lparr>rotators := (rotators (Transform_ctor 0 blank_world))
                  (Rotator_at 0 :=
                     Rotator_copy (rotators (Transform_ctor 0 blank_world) (Rotator_of 0)))\<rparr>))
          (Rotator_of 0)) = 0
   \<and> yaw (GetRotator (Quat_make 0 0 0 1)) = 180"
proof -
  let ?w1 = "Transform_ctor 0 blank_world"
  have r1: "rotators ?w1 (Rotator_of 0)
            = \<lparr>pitch = 0, yaw = 0, roll = 0, mp_BoundTransform_r = Some 0\<rparr>"
    by (simp add: Transform_ctor_def UpdateMtx_frame Rotator_default_def)
  have c: "Rotator_copy (rotators ?w1 (Rotator_of 0))
            = \<lparr>pitch = 0, yaw = 0, roll = 0, mp_BoundTransform_r = Some 0\<rparr>"
    unfolding r1 by (simp add: Rotator_copy_def)
  have n: "mp_BoundTransform_r (Rotator_GetNormalized (rotators ?w1 (Rotator_of 0))) = Some 0"
    unfolding r1 by (simp add: Rotator_GetNormalized_def Rotator_copy_def Let_def)
  let ?w2 = "?w1\<lparr>rotators := (rotators ?w1)
                  (Rotator_at 0 := Rotator_copy (rotators ?w1 (Rotator_of 0)))\<rparr>"
  have q: "Quaternion \<lparr>pitch = 0, yaw = 180, roll = 0, mp_BoundTransform_r = Some 0\<rparr>
           = Quat_make 0 0 0 1"
    by (simp add: Quaternion_def Quat_make_def Let_def)
  have a: "Quat_eq (quats (Rotator_Add (Rotator_at 0) 0 180 0 ?w2) (Rotation_of 0))
             (Quat_make 0 0 0 1)"
    unfolding c
    by (simp add: Rotator_Add_def Rotator_UpdateBoundTransform_def UpdateMtx_frame q Let_def
        Quat_eq_def Quat_make_def)
  have b: "yaw (rotators (Rotator_Add (Rotator_at 0) 0 180 0 ?w2) (Rotator_of 0)) = 0"
    unfolding c
    by (simp add: Rotator_Add_def Rotator_UpdateBoundTransform_rotators r1 Let_def)
  have y2: "yaw (GetRotator (Quat_make 0 0 0 1)) = 180"
    by (simp add: GetRotator_def Quat_make_def SINGULARITY_THRESHOLD_def atan2f_def RAD2DEG_def
        OVERPI_def Let_def)
  from c n a b y2 show ?thesis by simp
qed


subsection \<open>Normalize and the owner\<close>

lemma GetRotator_cong: "Quat_eq p q \<Longrightarrow> GetRotator p = GetRotator q"
  by (simp add: GetRotator_def Quat_eq_def Let_def)

lemma Quat_Normalize_no_update:
  "tolerance \<le> SizeSquared (quats w this) \<Longrightarrow>
   rotators (Quat_Normalize this tolerance w) = rotators w
   \<and> transforms (Quat_Normalize this tolerance w) = transforms w"
  by (simp add: Quat_Normalize_def SizeSquared_def Let_def)

lemma Quat_Normalize_this:
  "tolerance \<le> SizeSquared (quats w this) \<Longrightarrow>
   quats (Quat_Normalize this tolerance w) this = Normalize_unbound (quats w this) tolerance"
  by (simp add: Quat_Normalize_def Normalize_unbound_def SizeSquared_def Let_def)

text \<open>
  C1. Construct a Transform, assign the quaternion \<open>(w = 0, x = 0, y = 0, z = 1/2)\<close> to
  its member \<^verbatim>\<open>rotation\<close> (the owner's rotator becomes yaw 0), then call
  \<^verbatim>\<open>rotation.Normalize()\<close>. The quaternion is scaled by \<^verbatim>\<open>InvSqrt(0.25)\<close>, which is
  a little below 2, and becomes \<open>(0, 0, 0, z)\<close> with \<open>z\<close> about \<open>0.9983\<close>, whose rotator has
  yaw 180, but the first branch of \<^verbatim>\<open>Normalize\<close> does not call \<^verbatim>\<open>UpdateBoundTransform\<close>: the
  owner's rotator keeps yaw 0, and its matrix and notification count are untouched.
\<close>

theorem Quat_Normalize_leaves_owner_stale:
  "mp_BoundTransform_q
     (quats (Quat_assign (Rotation_of 0) (Quat_make 0 0 0 (1 / 2)) (Transform_ctor 0 blank_world))
        (Rotation_of 0)) = Some 0
   \<and> Quat_eq
       (quats (Quat_Normalize (Rotation_of 0) SMALL_NUMBER
                 (Quat_assign (Rotation_of 0) (Quat_make 0 0 0 (1 / 2)) (Transform_ctor 0 blank_world)))
          (Rotation_of 0))
       (Quat_make 0 0 0 (9428744445616615784033 / 9444732965739290427392))
   \<and> yaw (GetRotator (Quat_make 0 0 0 (9428744445616615784033 / 9444732965739290427392))) = 180
   \<and> yaw (rotators (Quat_Normalize (Rotation_of 0) SMALL_NUMBER
                 (Quat_assign (Rotation_of 0) (Quat_make 0 0 0 (1 / 2)) (Transform_ctor 0 blank_world)))
          (Rotator_of 0)) = 0
   \<and> transforms (Quat_Normalize (Rotation_of 0) SMALL_NUMBER
                 (Quat_assign (Rotation_of 0) (Quat_make 0 0 0 (1 / 2)) (Transform_ctor 0 blank_world)))
      = transforms (Quat_assign (Rotation_of 0) (Quat_make 0 0 0 (1 / 2)) (Transform_ctor 0 blank_world))
   \<and> \<not> owner_agrees_q (Rotation_of 0) 0
         (Quat_Normalize (Rotation_of 0) SMALL_NUMBER
            (Quat_assign (Rotation_of 0) (Quat_make 0 0 0 (1 / 2)) (Transform_ctor 0 blank_world)))"
proof -
  let ?w1 = "Quat_assign (Rotation_of 0) (Quat_make 0 0 0 (1 / 2)) (Transform_ctor 0 blank_world)"
  have q1: "quats ?w1 (Rotation_of 0)
            = \<lparr>qw = 0, qx = 0, qy = 0, qz = 1 / 2, mp_BoundTransform_q = Some 0\<rparr>"
    by (simp add: Quat_assign_this Transform_ctor_def UpdateMtx_frame Quat_default_def Quat_make_def)
  have s: "SizeSquared (quats ?w1 (Rotation_of 0)) = 1 / 4"
    unfolding q1 by (simp add: SizeSquared_def)
  have b0: "mp_BoundTransform_q (quats (Transform_ctor 0 blank_world) (Rotation_of 0)) = Some 0"
    by (simp add: Transform_ctor_def UpdateMtx_frame)
  have y1: "yaw (rotators ?w1 (Rotator_of 0)) = 0"
    using Quat_mutators_propagate(1)[OF b0, of "Quat_make 0 0 0 (1 / 2)"]
    unfolding owner_agrees_q_def q1
    by (simp add: GetRotator_def SINGULARITY_THRESHOLD_def atan2f_def RAD2DEG_def Let_def)
  have n: "rotators (Quat_Normalize (Rotation_of 0) SMALL_NUMBER ?w1) = rotators ?w1"
    "transforms (Quat_Normalize (Rotation_of 0) SMALL_NUMBER ?w1) = transforms ?w1"
    using Quat_Normalize_no_update[of SMALL_NUMBER ?w1 "Rotation_of 0"]
    unfolding s by (simp_all add: SMALL_NUMBER_def)
  have q2': "quats (Quat_Normalize (Rotation_of 0) SMALL_NUMBER ?w1) (Rotation_of 0)
             = Normalize_unbound (quats ?w1 (Rotation_of 0)) SMALL_NUMBER"
    using Quat_Normalize_this[of SMALL_NUMBER ?w1 "Rotation_of 0"]
    unfolding s by (simp add: SMALL_NUMBER_def)
  have q2: "Quat_eq (quats (Quat_Normalize (Rotation_of 0) SMALL_NUMBER ?w1) (Rotation_of 0))
              (Quat_make 0 0 0 (9428744445616615784033 / 9444732965739290427392))"
    unfolding q2' q1
    by (simp add: Normalize_unbound_def Let_def SMALL_NUMBER_def InvSqrt_quarter
        Quat_eq_def Quat_make_def)
  have y2: "yaw (GetRotator (Quat_make 0 0 0 (9428744445616615784033 / 9444732965739290427392))) = 180"
    by (simp add: GetRotator_def Quat_make_def SINGULARITY_THRESHOLD_def atan2f_def RAD2DEG_def
        OVERPI_def Let_def)
  have g: "GetRotator (quats (Quat_Normalize (Rotation_of 0) SMALL_NUMBER ?w1) (Rotation_of 0))
           = GetRotator (Quat_make 0 0 0 (9428744445616615784033 / 9444732965739290427392))"
    using q2 by (rule GetRotator_cong)
  have d: "\<not> owner_agrees_q (Rotation_of 0) 0
             (Quat_Normalize (Rotation_of 0) SMALL_NUMBER ?w1)"
    unfolding owner_agrees_q_def g y2 n(1) y1 by simp
  show ?thesis
    using q1 q2 y2 y1 n d by simp
qed


section \<open>Properties of Deserialize\<close>

lemma Deserialize_header_frame:
  assumes "Deserialize_header stof this file input w = Inr (w1, file1, input1)"
  shows "quats w1 = quats w \<and> rotators w1 = rotators w
         \<and> mtx (transforms w1 this) = mtx (transforms w this)"
  using assms
  by (auto simp: Deserialize_header_def Let_def split: prod.splits sum.splits)

lemma legacy_position:
  "gpos (seekg (snd (next_line file input)) (fst (tellg file))) = gpos file
   \<and> buffer (seekg (snd (next_line file input)) (fst (tellg file))) = buffer file"
  by (auto simp: next_line_def tellg_def getline_def seekg_def good_def Let_def
      split: option.splits)

lemma legacy_good:
  "good file \<Longrightarrow> gpos file < length (buffer file) \<Longrightarrow>
   good (seekg (snd (next_line file input)) (fst (tellg file)))"
  by (auto simp: next_line_def tellg_def getline_def seekg_def good_def Let_def
      split: option.splits)

lemma Deserialize_rotation_legacy:
  assumes "next_label file input \<noteq> ''ROTATION:''"
  shows "Deserialize_rotation parse_float cd this file input w
         = (w, seekg (snd (next_line file input)) (fst (tellg file)))"
  using assms
  by (simp add: Deserialize_rotation_def next_label_def next_line_def Let_def split_def)

lemma Deserialize_rotation_labelled:
  assumes "next_label file input = ''ROTATION:''"
  shows "Deserialize_rotation parse_float cd this file input w =
     (let line = fst (next_line file input);
          is0 = snd (extract_string (istringstream line) []);
          r = rotators w (Rotator_of this);
          (p, is1) = extract_float parse_float is0 (pitch r);
          (y, is2) = extract_float parse_float is1 (yaw r);
          (ro, is3) = extract_float parse_float is2 (roll r);
          w1 = w\<lparr>rotators := (rotators w)
                      (Rotator_of this := r\<lparr>pitch := p, yaw := y, roll := ro\<rparr>)\<rparr> in
      (UpdateMtx this (Rotator_UpdateBoundTransform (Rotator_of this) w1),
       cd (snd (next_line file input)) line))"
  using assms
  by (simp add: Deserialize_rotation_def next_label_def next_line_def Let_def split_def)


lemma serialized_label:
  assumes "good file"
    and "drop (gpos file) (buffer file) = Serialize_rotation show_float r @ rest"
  shows "next_label file input = ''ROTATION:''"
proof -
  from assms(2) obtain rest' where
    d: "drop (gpos file) (buffer file) = ''ROTATION: '' @ rest'"
    by (simp add: Serialize_rotation_def)
  have l: "fst (next_line file input) = ''ROTATION: '' @ takeWhile (\<lambda>c. c \<noteq> newline) rest'"
    using assms(1) d
    by (simp add: next_line_def tellg_def getline_def Let_def newline_def)
  show ?thesis
    unfolding next_label_def l
    by (simp add: extract_string_def istringstream_def good_def isspace_def Let_def)
qed

text \<open>
  C8. After the tag, position and scale lines, \<^verbatim>\<open>Deserialize\<close> reads one more line and
  takes its first word as the label. If the word is not \<^verbatim>\<open>ROTATION:\<close>, the call returns
  normally with the file's read position back where it was before that line, and the
  rotator, the quaternion and the matrix of the store are the ones it was called with.
  If the word is \<^verbatim>\<open>ROTATION:\<close>, pitch, yaw and roll are the three numbers that
  \<^verbatim>\<open>operator>>\<close> extracts from the rest of that same line, the owner is updated from
  them, and the file has advanced by that one line. A line written by \<^verbatim>\<open>Serialize\<close>
  carries the label.
\<close>

theorem Deserialize_rotation_line:
  assumes h: "Deserialize_header stof this file input w = Inr (w1, file1, input1)"
  shows "(next_label file1 input1 \<noteq> ''ROTATION:'' \<longrightarrow>
            Deserialize stof parse_float cd this file input w
              = Inr (w1, seekg (snd (next_line file1 input1)) (fst (tellg file1)))
            \<and> gpos (seekg (snd (next_line file1 input1)) (fst (tellg file1))) = gpos file1
            \<and> buffer (seekg (snd (next_line file1 input1)) (fst (tellg file1))) = buffer file1
            \<and> quats w1 = quats w \<and> rotators w1 = rotators w
            \<and> mtx (transforms w1 this) = mtx (transforms w this))
       \<and> (next_label file1 input1 = ''ROTATION:'' \<longrightarrow>
            Deserialize stof parse_float cd this file input w =
              Inr (let line = fst (next_line file1 input1);
                       is0 = snd (extract_string (istringstream line) []);
                       r = rotators w1 (Rotator_of this);
                       (p, is1) = extract_float parse_float is0 (pitch r);
                       (y, is2) = extract_float parse_float is1 (yaw r);
                       (ro, is3) = extract_float parse_float is2 (roll r);
                       w2 = w1\<lparr>rotators := (rotators w1)
                              (Rotator_of this := r\<lparr>pitch := p, yaw := y, roll := ro\<rparr>)\<rparr> in
                   (UpdateMtx this (Rotator_UpdateBoundTransform (Rotator_of this) w2),
                    cd (snd (next_line file1 input1)) line)))
       \<and> (good file1 \<and> drop (gpos file1) (buffer file1) = Serialize_rotation show_float r @ rest
            \<longrightarrow> next_label file1 input1 = ''ROTATION:'')"
proof (intro conjI impI)
  assume n: "next_label file1 input1 \<noteq> ''ROTATION:''"
  show "Deserialize stof parse_float cd this file input w
              = Inr (w1, seekg (snd (next_line file1 input1)) (fst (tellg file1)))"
    by (simp add: Deserialize_def h Deserialize_rotation_legacy[OF n])
  show "gpos (seekg (snd (next_line file1 input1)) (fst (tellg file1))) = gpos file1"
    "buffer (seekg (snd (next_line file1 input1)) (fst (tellg file1))) = buffer file1"
    using legacy_position by blast+
  show "quats w1 = quats w" "rotators w1 = rotators w"
    "mtx (transforms w1 this) = mtx (transforms w this)"
    using Deserialize_header_frame[OF h] by blast+
next
  assume l: "next_label file1 input1 = ''ROTATION:''"
  show "Deserialize stof parse_float cd this file input w =
              Inr (let line = fst (next_line file1 input1);
                       is0 = snd (extract_string (istringstream line) []);
                       r = rotators w1 (Rotator_of this);
                       (p, is1) = extract_float parse_float is0 (pitch r);
                       (y, is2) = extract_float parse_float is1 (yaw r);
                       (ro, is3) = extract_float parse_float is2 (roll r);
                       w2 = w1\<lparr>rotators := (rotators w1)
                              (Rotator_of this := r\<lparr>pitch := p, yaw := y, roll := ro\<rparr>)\<rparr> in
                   (UpdateMtx this (Rotator_UpdateBoundTransform (Rotator_of this) w2),
                    cd (snd (next_line file1 input1)) line))"
    by (simp add: Deserialize_def h Deserialize_rotation_labelled[OF l])
next
  assume "good file1 \<and> drop (gpos file1) (buffer file1) = Serialize_rotation show_float r @ rest"
  then show "next_label file1 input1 = ''ROTATION:''"
    using serialized_label by blast
qed

theorem Deserialize_rotation_line_witness:
  "Deserialize_header (\<lambda>s. Some 1) 0 legacy_file [] (Transform_ctor 0 blank_world)
     = Inr (loaded_world, legacy_file\<lparr>gpos := 33\<rparr>, ''1'')
   \<and> next_label (legacy_file\<lparr>gpos := 33\<rparr>) ''1'' \<noteq> ''ROTATION:''
   \<and> Deserialize (\<lambda>s. Some 1) (\<lambda>s. Some (5, 1)) (\<lambda>f i. f) 0 legacy_file []
        (Transform_ctor 0 blank_world)
      = Inr (loaded_world, legacy_file\<lparr>gpos := 33\<rparr>)
   \<and> rotators loaded_world = rotators (Transform_ctor 0 blank_world)
   \<and> Deserialize_header (\<lambda>s. Some 1) 0 current_file [] (Transform_ctor 0 blank_world)
     = Inr (loaded_world, current_file\<lparr>gpos := 33\<rparr>, ''1'')
   \<and> next_label (current_file\<lparr>gpos := 33\<rparr>) ''1'' = ''ROTATION:''
   \<and> (case Deserialize (\<lambda>s. Some 1) (\<lambda>s. Some (5, 1)) (\<lambda>f i. f) 0 current_file []
              (Transform_ctor 0 blank_world) of
         Inl e \<Rightarrow> False
       | Inr (w', f') \<Rightarrow> pitch (rotators w' (Rotator_of 0)) = 5 \<and> gpos f' = 49)"
proof -
  have h1: "Deserialize_header (\<lambda>s. Some 1) 0 legacy_file [] (Transform_ctor 0 blank_world)
     = Inr (loaded_world, legacy_file\<lparr>gpos := 33\<rparr>, ''1'')"
    by (simp add: Deserialize_header_def legacy_file_def loaded_world_def
      istringstream_def getline_def good_def newline_def after_colon_def read3_def Vec3_make_def
      Let_def)
  have n1: "next_label (legacy_file\<lparr>gpos := 33\<rparr>) ''1'' \<noteq> ''ROTATION:''"
    by (simp add: next_label_def next_line_def legacy_file_def tellg_def getline_def good_def
      istringstream_def newline_def extract_string_def isspace_def Let_def)
  have s1: "seekg (snd (next_line (legacy_file\<lparr>gpos := 33\<rparr>) ''1''))
              (fst (tellg (legacy_file\<lparr>gpos := 33\<rparr>))) = legacy_file\<lparr>gpos := 33\<rparr>"
    by (simp add: next_line_def legacy_file_def tellg_def getline_def good_def seekg_def
      istringstream_def newline_def Let_def)
  note r1 = Deserialize_rotation_line [OF h1, of "\<lambda>s. Some (5, 1)" "\<lambda>f i. f"]
  from r1 n1 have d1: "Deserialize (\<lambda>s. Some 1) (\<lambda>s. Some (5, 1)) (\<lambda>f i. f) 0 legacy_file []
        (Transform_ctor 0 blank_world)
      = Inr (loaded_world, legacy_file\<lparr>gpos := 33\<rparr>)"
    unfolding s1 by blast
  from r1 n1 have f1: "rotators loaded_world = rotators (Transform_ctor 0 blank_world)"
    by blast
  have h2: "Deserialize_header (\<lambda>s. Some 1) 0 current_file [] (Transform_ctor 0 blank_world)
     = Inr (loaded_world, current_file\<lparr>gpos := 33\<rparr>, ''1'')"
    by (simp add: Deserialize_header_def current_file_def loaded_world_def
      istringstream_def getline_def good_def newline_def after_colon_def read3_def Vec3_make_def
      Let_def)
  have n2: "next_label (current_file\<lparr>gpos := 33\<rparr>) ''1'' = ''ROTATION:''"
    by (simp add: next_label_def next_line_def current_file_def tellg_def getline_def good_def
      istringstream_def newline_def extract_string_def isspace_def Let_def)
  note r2 = Deserialize_rotation_line [OF h2, of "\<lambda>s. Some (5, 1)" "\<lambda>f i. f"]
  from r2 n2 have d2: "Deserialize (\<lambda>s. Some 1) (\<lambda>s. Some (5, 1)) (\<lambda>f i. f) 0 current_file []
        (Transform_ctor 0 blank_world) =
              Inr (let line = fst (next_line (current_file\<lparr>gpos := 33\<rparr>) ''1'');
                       is0 = snd (extract_string (istringstream line) []);
                       r = rotators loaded_world (Rotator_of 0);
                       (p, is1) = extract_float (\<lambda>s. Some (5, 1)) is0 (pitch r);
                       (y, is2) = extract_float (\<lambda>s. Some (5, 1)) is1 (yaw r);
                       (ro, is3) = extract_float (\<lambda>s. Some (5, 1)) is2 (roll r);
                       w2 = loaded_world\<lparr>rotators := (rotators loaded_world)
                              (Rotator_of 0 := r\<lparr>pitch := p, yaw := y, roll := ro\<rparr>)\<rparr> in
                   (UpdateMtx 0 (Rotator_UpdateBoundTransform (Rotator_of 0) w2),
                    (\<lambda>f i. f) (snd (next_line (current_file\<lparr>gpos := 33\<rparr>) ''1'')) line))"
    by blast
  have l2: "next_line (current_file\<lparr>gpos := 33\<rparr>) ''1''
            = (''ROTATION: 5 5 5'', current_file\<lparr>gpos := 49\<rparr>)"
    by (simp add: next_line_def current_file_def tellg_def getline_def good_def
      istringstream_def newline_def Let_def)
  have e2: "extract_float (\<lambda>s. Some (5, 1))
              (snd (extract_string (istringstream ''ROTATION: 5 5 5'') [])) v
            = (5, \<lparr>buffer = ''ROTATION: 5 5 5'', gpos = 11, eofbit = False, failbit = False\<rparr>)" for v
    by (simp add: extract_float_def extract_string_def istringstream_def good_def isspace_def
        Let_def)
  have c2: "(case Deserialize (\<lambda>s. Some 1) (\<lambda>s. Some (5, 1)) (\<lambda>f i. f) 0 current_file []
              (Transform_ctor 0 blank_world) of
         Inl e \<Rightarrow> False
       | Inr (w', f') \<Rightarrow> pitch (rotators w' (Rotator_of 0)) = 5 \<and> gpos f' = 49)"
    unfolding d2 l2
    by (simp add: Let_def split_def e2 [simplified] UpdateMtx_frame
        Rotator_UpdateBoundTransform_rotators)
  from h1 n1 d1 f1 h2 n2 c2 show ?thesis by blast
qed


section \<open>The round trip Rotator, Quat, Rotator\<close>

lemma quat_poly:
  fixes SP CP SY CY SR CR :: real
  assumes p: "SP * SP + CP * CP = 1" and y: "SY * SY + CY * CY = 1" and r: "SR * SR + CR * CR = 1"
  defines "W \<equiv> CR * CP * CY + SR * SP * SY"
    and "X \<equiv> CR * SP * SY - SR * CP * CY"
    and "Y \<equiv> - CR * SP * CY - SR * CP * SY"
    and "Z \<equiv> CR * CP * SY - SR * SP * CY"
  shows "Z * X - W * Y = SP * CP"
    and "2 * (W * Z + X * Y) = (2 * SY * CY) * (CP * CP - SP * SP)"
    and "1 - 2 * (Y * Y + Z * Z) = (CY * CY - SY * SY) * (CP * CP - SP * SP)"
    and "- 2 * (W * X + Y * Z) = (2 * SR * CR) * (CP * CP - SP * SP)"
    and "1 - 2 * (X * X + Y * Y) = (CR * CR - SR * SR) * (CP * CP - SP * SP)"
proof -
  have "Z * X - W * Y = SP * CP * ((SY * SY + CY * CY) * (SR * SR + CR * CR))"
    unfolding W_def X_def Y_def Z_def by (simp add: algebra_simps)
  then show "Z * X - W * Y = SP * CP" by (simp add: y r)
  have "2 * (W * Z + X * Y) = (2 * SY * CY) * (CP * CP - SP * SP) * (SR * SR + CR * CR)"
    unfolding W_def X_def Y_def Z_def by (simp add: algebra_simps)
  then show "2 * (W * Z + X * Y) = (2 * SY * CY) * (CP * CP - SP * SP)" by (simp add: r)
  have "Y * Y + Z * Z = (SP * SP * (CY * CY) + CP * CP * (SY * SY)) * (SR * SR + CR * CR)"
    unfolding W_def X_def Y_def Z_def by (simp add: algebra_simps)
  then have "Y * Y + Z * Z = SP * SP * (CY * CY) + CP * CP * (SY * SY)" by (simp add: r)
  moreover have "(1::real) = (SY * SY + CY * CY) * (SP * SP + CP * CP)" by (simp add: p y)
  ultimately have "1 - 2 * (Y * Y + Z * Z)
      = (SY * SY + CY * CY) * (SP * SP + CP * CP)
        - 2 * (SP * SP * (CY * CY) + CP * CP * (SY * SY))" by simp
  also have "\<dots> = (CY * CY - SY * SY) * (CP * CP - SP * SP)" by (simp add: algebra_simps)
  finally show "1 - 2 * (Y * Y + Z * Z) = (CY * CY - SY * SY) * (CP * CP - SP * SP)" .
  have "- 2 * (W * X + Y * Z) = (2 * SR * CR) * (CP * CP - SP * SP) * (SY * SY + CY * CY)"
    unfolding W_def X_def Y_def Z_def by (simp add: algebra_simps)
  then show "- 2 * (W * X + Y * Z) = (2 * SR * CR) * (CP * CP - SP * SP)" by (simp add: y)
  have "X * X + Y * Y = (CR * CR * (SP * SP) + SR * SR * (CP * CP)) * (SY * SY + CY * CY)"
    unfolding W_def X_def Y_def Z_def by (simp add: algebra_simps)
  then have "X * X + Y * Y = CR * CR * (SP * SP) + SR * SR * (CP * CP)" by (simp add: y)
  moreover have "(1::real) = (SR * SR + CR * CR) * (SP * SP + CP * CP)" by (simp add: p r)
  ultimately have "1 - 2 * (X * X + Y * Y)
      = (SR * SR + CR * CR) * (SP * SP + CP * CP)
        - 2 * (CR * CR * (SP * SP) + SR * SR * (CP * CP))" by simp
  also have "\<dots> = (CR * CR - SR * SR) * (CP * CP - SP * SP)" by (simp add: algebra_simps)
  finally show "1 - 2 * (X * X + Y * Y) = (CR * CR - SR * SR) * (CP * CP - SP * SP)" .
qed


lemma half_angle: "x * (pi / 180 / 2) = DEG2RAD x / 2"
  by (simp add: DEG2RAD_def PIOVER180_def)

lemma sin_half_double: "2 * sin (t / 2) * cos (t / 2) = sin (t::real)"
  using sin_double[of "t / 2"] by simp

lemma cos_half_double: "cos (t / 2) * cos (t / 2) - sin (t / 2) * sin (t / 2) = cos (t::real)"
  using cos_double[of "t / 2"] by (simp add: power2_eq_square)

lemma Quaternion_tests:
  fixes e :: Rotator
  defines "P \<equiv> DEG2RAD (pitch e)" and "Y \<equiv> DEG2RAD (yaw e)" and "R \<equiv> DEG2RAD (roll e)"
  defines "q \<equiv> Quaternion e"
  shows "qz q * qx q - qw q * qy q = sin P / 2"
    and "2 * (qw q * qz q + qx q * qy q) = sin Y * cos P"
    and "1 - 2 * (qy q * qy q + qz q * qz q) = cos Y * cos P"
    and "- 2 * (qw q * qx q + qy q * qz q) = sin R * cos P"
    and "1 - 2 * (qx q * qx q + qy q * qy q) = cos R * cos P"
proof -
  have c: "sin (P / 2) * sin (P / 2) + cos (P / 2) * cos (P / 2) = 1"
    "sin (Y / 2) * sin (Y / 2) + cos (Y / 2) * cos (Y / 2) = 1"
    "sin (R / 2) * sin (R / 2) + cos (R / 2) * cos (R / 2) = 1"
    by (simp_all add: add.commute)
  have w: "qw q = cos (R / 2) * cos (P / 2) * cos (Y / 2) + sin (R / 2) * sin (P / 2) * sin (Y / 2)"
    and x: "qx q = cos (R / 2) * sin (P / 2) * sin (Y / 2) - sin (R / 2) * cos (P / 2) * cos (Y / 2)"
    and y: "qy q = - cos (R / 2) * sin (P / 2) * cos (Y / 2) - sin (R / 2) * cos (P / 2) * sin (Y / 2)"
    and z: "qz q = cos (R / 2) * cos (P / 2) * sin (Y / 2) - sin (R / 2) * sin (P / 2) * cos (Y / 2)"
    unfolding q_def P_def Y_def R_def Quaternion_def Let_def half_angle by simp_all
  note i = quat_poly[OF c, folded w x y z]
  show "qz q * qx q - qw q * qy q = sin P / 2"
    using i(1) sin_half_double[of P] by simp
  show "2 * (qw q * qz q + qx q * qy q) = sin Y * cos P"
    unfolding i(2) sin_half_double cos_half_double ..
  show "1 - 2 * (qy q * qy q + qz q * qz q) = cos Y * cos P"
    unfolding i(3) cos_half_double ..
  show "- 2 * (qw q * qx q + qy q * qz q) = sin R * cos P"
    unfolding i(4) sin_half_double cos_half_double ..
  show "1 - 2 * (qx q * qx q + qy q * qy q) = cos R * cos P"
    unfolding i(5) cos_half_double ..
qed

lemma atan2f_polar:
  assumes c: "0 < c" and lo: "- pi < t" and hi: "t \<le> pi"
  shows "atan2f (sin t * c) (cos t * c) = t"
proof -
  have q: "sin t * c / (cos t * c) = tan t" using c by (simp add: tan_def)
  consider (mid) "- (pi / 2) < t" "t < pi / 2" | (top) "t = pi / 2" | (bot) "t = - (pi / 2)"
    | (left) "pi / 2 < t" | (right) "t < - (pi / 2)"
    by linarith
  then show ?thesis
  proof cases
    case mid
    then have "0 < cos t" by (rule cos_gt_zero_pi)
    with c have "0 < cos t * c" by simp
    then show ?thesis
      by (simp add: atan2f_def q arctan_tan[OF mid])
  next
    case top
    show ?thesis unfolding top using c by (simp add: atan2f_def)
  next
    case bot
    show ?thesis unfolding bot using c by (simp add: atan2f_def)
  next
    case left
    have m: "- (pi / 2) < t - pi" "t - pi < pi / 2" using left hi by simp_all
    have "0 < cos (t - pi)" using m by (rule cos_gt_zero_pi)
    then have "cos t < 0" by simp
    with c have a: "cos t * c < 0" by (simp add: mult_neg_pos)
    have "0 \<le> sin t" using left hi by (intro sin_ge_zero) simp_all
    with c have b: "0 \<le> sin t * c" by simp
    have "tan t = tan (t - pi)" using tan_periodic_pi[of "t - pi"] by simp
    then have "arctan (tan t) = t - pi" using arctan_tan[OF m] by simp
    with a b show ?thesis by (simp add: atan2f_def q)
  next
    case right
    have m: "- (pi / 2) < t + pi" "t + pi < pi / 2" using right lo by simp_all
    have "0 < cos (t + pi)" using m by (rule cos_gt_zero_pi)
    then have "cos t < 0" by simp
    with c have a: "cos t * c < 0" by (simp add: mult_neg_pos)
    have "0 < sin (t + pi)" using right lo by (intro sin_gt_zero) simp_all
    then have "sin t < 0" by simp
    with c have b: "sin t * c < 0" by (simp add: mult_neg_pos)
    have "arctan (tan t) = t + pi" using arctan_tan[OF m] by simp
    with a b show ?thesis by (simp add: atan2f_def q)
  qed
qed

lemma RAD2DEG_DEG2RAD: "RAD2DEG (DEG2RAD x) = x"
  by (simp add: RAD2DEG_def DEG2RAD_def PIOVER180_def OVERPI_def)

lemma DEG2RAD_bounds:
  "lo < x \<Longrightarrow> DEG2RAD lo < DEG2RAD x" "x \<le> hi \<Longrightarrow> DEG2RAD x \<le> DEG2RAD hi"
  by (simp_all add: DEG2RAD_def PIOVER180_def)

lemma DEG2RAD_values: "DEG2RAD 180 = pi" "DEG2RAD (- 180) = - pi" "DEG2RAD 90 = pi / 2"
  "DEG2RAD (- 90) = - (pi / 2)"
  by (simp_all add: DEG2RAD_def PIOVER180_def)

lemma round_trip_exact:
  assumes p: "- 90 < pitch e" "pitch e < 90"
    and s: "\<bar>sin (DEG2RAD (pitch e))\<bar> \<le> 2 * SINGULARITY_THRESHOLD"
    and y: "- 180 < yaw e" "yaw e \<le> 180"
    and r: "- 180 < roll e" "roll e \<le> 180"
  shows "pitch (GetRotator (Quaternion e)) = pitch e"
    and "yaw (GetRotator (Quaternion e)) = yaw e"
    and "roll (GetRotator (Quaternion e)) = roll e"
proof -
  let ?P = "DEG2RAD (pitch e)" and ?Y = "DEG2RAD (yaw e)" and ?R = "DEG2RAD (roll e)"
  let ?q = "Quaternion e"
  note t = Quaternion_tests[of e]
  have st: "\<not> qz ?q * qx ?q - qw ?q * qy ?q < - SINGULARITY_THRESHOLD"
    "\<not> qz ?q * qx ?q - qw ?q * qy ?q > SINGULARITY_THRESHOLD"
    unfolding t(1) using s by (simp_all add: abs_le_iff)
  have P: "- (pi / 2) < ?P" "?P < pi / 2"
    using DEG2RAD_bounds(1)[of "- 90" "pitch e"] DEG2RAD_bounds(1)[of "pitch e" 90] p
    by (simp_all add: DEG2RAD_values)
  have Y: "- pi < ?Y" "?Y \<le> pi"
    using DEG2RAD_bounds(1)[of "- 180" "yaw e"] DEG2RAD_bounds(2)[of "yaw e" 180] y
    by (simp_all add: DEG2RAD_values)
  have R: "- pi < ?R" "?R \<le> pi"
    using DEG2RAD_bounds(1)[of "- 180" "roll e"] DEG2RAD_bounds(2)[of "roll e" 180] r
    by (simp_all add: DEG2RAD_values)
  have c: "0 < cos ?P" using P by (rule cos_gt_zero_pi)
  have "pitch (GetRotator ?q) = RAD2DEG (arcsin (2 * (sin ?P / 2)))"
    using st by (simp add: GetRotator_def Let_def t(1))
  also have "\<dots> = RAD2DEG ?P" using P by (simp add: arcsin_sin)
  finally show "pitch (GetRotator ?q) = pitch e" by (simp add: RAD2DEG_DEG2RAD)
  have "yaw (GetRotator ?q) = RAD2DEG (atan2f (sin ?Y * cos ?P) (cos ?Y * cos ?P))"
    using st by (simp add: GetRotator_def Let_def t(2)[symmetric] t(3)[symmetric])
  also have "\<dots> = RAD2DEG ?Y" by (simp only: atan2f_polar[OF c Y])
  finally show "yaw (GetRotator ?q) = yaw e" by (simp add: RAD2DEG_DEG2RAD)
  have "roll (GetRotator ?q) = RAD2DEG (atan2f (sin ?R * cos ?P) (cos ?R * cos ?P))"
    using st by (simp add: GetRotator_def Let_def t(4)[symmetric] t(5)[symmetric])
  also have "\<dots> = RAD2DEG ?R" by (simp only: atan2f_polar[OF c R])
  finally show "roll (GetRotator ?q) = roll e" by (simp add: RAD2DEG_DEG2RAD)
qed

lemma half_angle_sign:
  fixes a a' :: real
  assumes "sin a' = sin a" "cos a' = cos a"
  shows "\<exists>s. (s = 1 \<or> s = - 1) \<and> sin (a' / 2) = s * sin (a / 2) \<and> cos (a' / 2) = s * cos (a / 2)"
proof -
  from assms sin_cos_eq_iff[of a' a] obtain n :: int where n: "a' = a + 2 * pi * of_int n"
    by blast
  then have h: "a' / 2 = a / 2 + pi * of_int n" by simp
  let ?s = "cos (pi * of_int n)"
  have 1: "?s = 1 \<or> ?s = - 1" by simp
  have 2: "sin (a' / 2) = ?s * sin (a / 2)" unfolding h sin_add by simp
  have 3: "cos (a' / 2) = ?s * cos (a / 2)" unfolding h cos_add by simp
  from 1 2 3 show ?thesis by blast
qed

lemma atan2f_sincos_pos:
  assumes c: "0 < c"
  shows "sin (atan2f (sin t * c) (cos t * c)) = sin t \<and> cos (atan2f (sin t * c) (cos t * c)) = cos t"
proof -
  from sincos_principal_value[of t] obtain t0 where
    t0: "- pi < t0" "t0 \<le> pi" "sin t0 = sin t" "cos t0 = cos t" by blast
  have "atan2f (sin t0 * c) (cos t0 * c) = t0" using c t0(1,2) by (rule atan2f_polar)
  then show ?thesis using t0(3,4) by simp
qed

lemma atan2f_sincos_neg:
  assumes c: "c < 0"
  shows "sin (atan2f (sin t * c) (cos t * c)) = - sin t \<and> cos (atan2f (sin t * c) (cos t * c)) = - cos t"
proof -
  have "0 < - c" using c by simp
  from atan2f_sincos_pos[OF this, of "t + pi"] show ?thesis by simp
qed

lemma cos_arcsin_sin: "cos (arcsin (sin t)) = \<bar>cos t\<bar>"
proof -
  have a: "cos (arcsin (sin t)) = sqrt (1 - (sin t)\<^sup>2)"
    by (rule cos_arcsin) simp_all
  have "(sin t)\<^sup>2 + (cos t)\<^sup>2 = 1" by (rule sin_cos_squared_add)
  then have e: "1 - (sin t)\<^sup>2 = (cos t)\<^sup>2" by linarith
  show ?thesis unfolding a e by simp
qed

lemma Quaternion_components:
  "qw (Quaternion e) = cos (DEG2RAD (roll e) / 2) * cos (DEG2RAD (pitch e) / 2) * cos (DEG2RAD (yaw e) / 2)
                     + sin (DEG2RAD (roll e) / 2) * sin (DEG2RAD (pitch e) / 2) * sin (DEG2RAD (yaw e) / 2)"
  "qx (Quaternion e) = cos (DEG2RAD (roll e) / 2) * sin (DEG2RAD (pitch e) / 2) * sin (DEG2RAD (yaw e) / 2)
                     - sin (DEG2RAD (roll e) / 2) * cos (DEG2RAD (pitch e) / 2) * cos (DEG2RAD (yaw e) / 2)"
  "qy (Quaternion e) = - cos (DEG2RAD (roll e) / 2) * sin (DEG2RAD (pitch e) / 2) * cos (DEG2RAD (yaw e) / 2)
                     - sin (DEG2RAD (roll e) / 2) * cos (DEG2RAD (pitch e) / 2) * sin (DEG2RAD (yaw e) / 2)"
  "qz (Quaternion e) = cos (DEG2RAD (roll e) / 2) * cos (DEG2RAD (pitch e) / 2) * sin (DEG2RAD (yaw e) / 2)
                     - sin (DEG2RAD (roll e) / 2) * sin (DEG2RAD (pitch e) / 2) * cos (DEG2RAD (yaw e) / 2)"
  unfolding Quaternion_def Let_def half_angle by simp_all

lemma DEG2RAD_RAD2DEG: "DEG2RAD (RAD2DEG x) = x"
  by (simp add: RAD2DEG_def DEG2RAD_def PIOVER180_def OVERPI_def)

lemma sign_cases:
  fixes a b c :: real
  assumes "a = 1 \<or> a = - 1" "b = 1 \<or> b = - 1" "c = 1 \<or> c = - 1"
  shows "a * b * c = 1 \<or> a * b * c = - 1"
  using assms by auto

lemma Quat_eq_scaled:
  fixes k :: real
  assumes k: "k = 1 \<or> k = - 1"
    and "qw p = k * qw q" "qx p = k * qx q" "qy p = k * qy q" "qz p = k * qz q"
  shows "Quat_eq p q \<or> Quat_eq p (Quat_neg q)"
  using assms by (auto simp: Quat_eq_def Quat_neg_def Quat_make_def)

lemma general_branch:
  assumes s: "\<bar>sin (DEG2RAD (pitch e))\<bar> \<le> 2 * SINGULARITY_THRESHOLD"
  shows "pitch (GetRotator (Quaternion e)) = RAD2DEG (arcsin (sin (DEG2RAD (pitch e))))"
    and "yaw (GetRotator (Quaternion e))
         = RAD2DEG (atan2f (sin (DEG2RAD (yaw e)) * cos (DEG2RAD (pitch e)))
                           (cos (DEG2RAD (yaw e)) * cos (DEG2RAD (pitch e))))"
    and "roll (GetRotator (Quaternion e))
         = RAD2DEG (atan2f (sin (DEG2RAD (roll e)) * cos (DEG2RAD (pitch e)))
                           (cos (DEG2RAD (roll e)) * cos (DEG2RAD (pitch e))))"
proof -
  let ?q = "Quaternion e"
  note t = Quaternion_tests[of e]
  have st: "\<not> qz ?q * qx ?q - qw ?q * qy ?q < - SINGULARITY_THRESHOLD"
    "\<not> qz ?q * qx ?q - qw ?q * qy ?q > SINGULARITY_THRESHOLD"
    unfolding t(1) using s by (simp_all add: abs_le_iff)
  show "pitch (GetRotator ?q) = RAD2DEG (arcsin (sin (DEG2RAD (pitch e))))"
    using st by (simp add: GetRotator_def Let_def t(1))
  show "yaw (GetRotator ?q)
         = RAD2DEG (atan2f (sin (DEG2RAD (yaw e)) * cos (DEG2RAD (pitch e)))
                           (cos (DEG2RAD (yaw e)) * cos (DEG2RAD (pitch e))))"
    using st by (simp add: GetRotator_def Let_def t(2)[symmetric] t(3)[symmetric])
  show "roll (GetRotator ?q)
         = RAD2DEG (atan2f (sin (DEG2RAD (roll e)) * cos (DEG2RAD (pitch e)))
                           (cos (DEG2RAD (roll e)) * cos (DEG2RAD (pitch e))))"
    using st by (simp add: GetRotator_def Let_def t(4)[symmetric] t(5)[symmetric])
qed

lemma round_trip_effect:
  assumes s: "\<bar>sin (DEG2RAD (pitch e))\<bar> \<le> 2 * SINGULARITY_THRESHOLD"
  shows "Quat_eq (Quaternion (GetRotator (Quaternion e))) (Quaternion e)
       \<or> Quat_eq (Quaternion (GetRotator (Quaternion e))) (Quat_neg (Quaternion e))"
proof -
  define P Y R where "P = DEG2RAD (pitch e)" and "Y = DEG2RAD (yaw e)" and "R = DEG2RAD (roll e)"
  define e' where "e' = GetRotator (Quaternion e)"
  define P' Y' R' where "P' = DEG2RAD (pitch e')" and "Y' = DEG2RAD (yaw e')"
    and "R' = DEG2RAD (roll e')"
  note g = general_branch[OF s, folded e'_def P_def Y_def R_def]
  have P': "P' = arcsin (sin P)" unfolding P'_def g(1) by (rule DEG2RAD_RAD2DEG)
  have Y': "Y' = atan2f (sin Y * cos P) (cos Y * cos P)"
    unfolding Y'_def g(2) by (rule DEG2RAD_RAD2DEG)
  have R': "R' = atan2f (sin R * cos P) (cos R * cos P)"
    unfolding R'_def g(3) by (rule DEG2RAD_RAD2DEG)
  have sP: "sin P' = sin P" unfolding P' by simp
  have cP: "cos P' = \<bar>cos P\<bar>" unfolding P' by (rule cos_arcsin_sin)
  have "\<bar>sin P\<bar> < 1" using s unfolding P_def by (simp add: SINGULARITY_THRESHOLD_def)
  then have "(sin P)\<^sup>2 < 1" by (simp add: abs_square_less_1)
  with sin_cos_squared_add[of P] have "0 < (cos P)\<^sup>2" by linarith
  then have nz: "cos P \<noteq> 0" by auto
  note q = Quaternion_components[of e, folded P_def Y_def R_def]
  note q' = Quaternion_components[of e', folded P'_def Y'_def R'_def]
  show ?thesis
  proof (cases "0 < cos P")
    case True
    then have cP1: "cos P' = cos P" using cP by simp
    from atan2f_sincos_pos[OF True, of Y] have y: "sin Y' = sin Y" "cos Y' = cos Y"
      unfolding Y' by blast+
    from atan2f_sincos_pos[OF True, of R] have r: "sin R' = sin R" "cos R' = cos R"
      unfolding R' by blast+
    from half_angle_sign[OF sP cP1] obtain a where
      a: "a = 1 \<or> a = - 1" "sin (P' / 2) = a * sin (P / 2)" "cos (P' / 2) = a * cos (P / 2)"
      by blast
    from half_angle_sign[OF y] obtain b where
      b: "b = 1 \<or> b = - 1" "sin (Y' / 2) = b * sin (Y / 2)" "cos (Y' / 2) = b * cos (Y / 2)"
      by blast
    from half_angle_sign[OF r] obtain c where
      c: "c = 1 \<or> c = - 1" "sin (R' / 2) = c * sin (R / 2)" "cos (R' / 2) = c * cos (R / 2)"
      by blast
    have k: "a * b * c = 1 \<or> a * b * c = - 1" using a(1) b(1) c(1) by (rule sign_cases)
    have "qw (Quaternion e') = (a * b * c) * qw (Quaternion e)"
      "qx (Quaternion e') = (a * b * c) * qx (Quaternion e)"
      "qy (Quaternion e') = (a * b * c) * qy (Quaternion e)"
      "qz (Quaternion e') = (a * b * c) * qz (Quaternion e)"
      unfolding q q' a(2,3) b(2,3) c(2,3) by (simp_all add: algebra_simps)
    from Quat_eq_scaled[OF k this] show ?thesis unfolding e'_def .
  next
    case False
    with nz have neg: "cos P < 0" by simp
    then have cP1: "cos P' = cos (pi - P)" using cP by simp
    have sP1: "sin P' = sin (pi - P)" using sP by simp
    from atan2f_sincos_neg[OF neg, of Y] have y: "sin Y' = sin (Y + pi)" "cos Y' = cos (Y + pi)"
      unfolding Y' by simp_all
    from atan2f_sincos_neg[OF neg, of R] have r: "sin R' = sin (R + pi)" "cos R' = cos (R + pi)"
      unfolding R' by simp_all
    have hp: "sin ((pi - P) / 2) = cos (P / 2)" "cos ((pi - P) / 2) = sin (P / 2)"
      by (simp_all add: diff_divide_distrib sin_diff cos_diff)
    have hy: "sin ((Y + pi) / 2) = cos (Y / 2)" "cos ((Y + pi) / 2) = - sin (Y / 2)"
      by (simp_all add: add_divide_distrib sin_add cos_add)
    have hr: "sin ((R + pi) / 2) = cos (R / 2)" "cos ((R + pi) / 2) = - sin (R / 2)"
      by (simp_all add: add_divide_distrib sin_add cos_add)
    from half_angle_sign[OF sP1 cP1] obtain a where
      a: "a = 1 \<or> a = - 1" "sin (P' / 2) = a * cos (P / 2)" "cos (P' / 2) = a * sin (P / 2)"
      unfolding hp by blast
    from half_angle_sign[OF y] obtain b where
      b: "b = 1 \<or> b = - 1" "sin (Y' / 2) = b * cos (Y / 2)" "cos (Y' / 2) = b * - sin (Y / 2)"
      unfolding hy by blast
    from half_angle_sign[OF r] obtain c where
      c: "c = 1 \<or> c = - 1" "sin (R' / 2) = c * cos (R / 2)" "cos (R' / 2) = c * - sin (R / 2)"
      unfolding hr by blast
    have k: "a * b * c = 1 \<or> a * b * c = - 1" using a(1) b(1) c(1) by (rule sign_cases)
    have "qw (Quaternion e') = (a * b * c) * qw (Quaternion e)"
      "qx (Quaternion e') = (a * b * c) * qx (Quaternion e)"
      "qy (Quaternion e') = (a * b * c) * qy (Quaternion e)"
      "qz (Quaternion e') = (a * b * c) * qz (Quaternion e)"
      unfolding q q' a(2,3) b(2,3) c(2,3) by (simp_all add: algebra_simps)
    from Quat_eq_scaled[OF k this] show ?thesis unfolding e'_def .
  qed
qed


subsection \<open>The singular branches\<close>

lemma quat_poly_unit:
  fixes SP CP SY CY SR CR :: real
  assumes p: "SP * SP + CP * CP = 1" and y: "SY * SY + CY * CY = 1" and r: "SR * SR + CR * CR = 1"
  shows "(CR * CP * CY + SR * SP * SY) * (CR * CP * CY + SR * SP * SY)
       + (CR * SP * SY - SR * CP * CY) * (CR * SP * SY - SR * CP * CY)
       + (- CR * SP * CY - SR * CP * SY) * (- CR * SP * CY - SR * CP * SY)
       + (CR * CP * SY - SR * SP * CY) * (CR * CP * SY - SR * SP * CY) = 1"
proof -
  have "(CR * CP * CY + SR * SP * SY) * (CR * CP * CY + SR * SP * SY)
       + (CR * SP * SY - SR * CP * CY) * (CR * SP * SY - SR * CP * CY)
       + (- CR * SP * CY - SR * CP * SY) * (- CR * SP * CY - SR * CP * SY)
       + (CR * CP * SY - SR * SP * CY) * (CR * CP * SY - SR * SP * CY)
       = (SP * SP + CP * CP) * ((SY * SY + CY * CY) * (SR * SR + CR * CR))"
    by (simp add: algebra_simps)
  then show ?thesis
    unfolding p y r by simp
qed

lemma Quaternion_unit: "SizeSquared (Quaternion e) = 1"
  unfolding SizeSquared_def Quaternion_components
  by (rule quat_poly_unit) (simp_all add: power2_eq_square[symmetric])

lemma atan2f_cos_sin:
  assumes "a \<noteq> 0 \<or> b \<noteq> 0"
  shows "cos (atan2f b a) = a / sqrt (a * a + b * b)"
    and "sin (atan2f b a) = b / sqrt (a * a + b * b)"
proof -
  define r where "r = sqrt (a * a + b * b)"
  have "0 < a * a + b * b"
    using assms by (simp add: sum_squares_gt_zero_iff)
  then have r: "0 < r" and rr: "r * r = a * a + b * b"
    by (simp_all add: r_def)
  have "(a / r)\<^sup>2 + (b / r)\<^sup>2 = (a * a + b * b) / (r * r)"
    by (simp add: power2_eq_square add_divide_distrib)
  also have "\<dots> = 1"
    unfolding rr[symmetric] using r by simp
  finally obtain t where t: "a / r = cos t" "b / r = sin t"
    using sincos_total_2pi by blast
  have ab: "sin t * r = b" "cos t * r = a"
    using r t by (simp_all add: t[symmetric])
  from atan2f_sincos_pos[OF r, of t]
  have "sin (atan2f b a) = sin t \<and> cos (atan2f b a) = cos t"
    unfolding ab .
  then have "cos (atan2f b a) = a / r" "sin (atan2f b a) = b / r"
    using t by simp_all
  then show "cos (atan2f b a) = a / sqrt (a * a + b * b)"
    and "sin (atan2f b a) = b / sqrt (a * a + b * b)"
    unfolding r_def .
qed

lemma shifted_by_pi:
  fixes k :: int
  shows "\<exists>s::real. (s = 1 \<or> s = - 1) \<and> cos (t + pi * of_int k) = s * cos t
                 \<and> sin (t + pi * of_int k) = s * sin t"
proof -
  let ?s = "cos (pi * of_int k)"
  have 1: "?s = 1 \<or> ?s = - 1"
    by simp
  have 2: "cos (t + pi * of_int k) = ?s * cos t"
    unfolding cos_add by simp
  have 3: "sin (t + pi * of_int k) = ?s * sin t"
    unfolding sin_add by simp
  from 1 2 3 show ?thesis
    by blast
qed

lemma diff_angle:
  fixes a u h :: real
  shows "cos (a - u) * h * cos a + sin (a - u) * h * sin a = h * cos u"
    and "cos (a - u) * h * sin a - sin (a - u) * h * cos a = h * sin u"
    and "- cos (a - u) * h * cos a - sin (a - u) * h * sin a = - (h * cos u)"
proof -
  have "cos u = cos (a - (a - u))" "sin u = sin (a - (a - u))"
    by simp_all
  then have c: "cos u = cos a * cos (a - u) + sin a * sin (a - u)"
    and s: "sin u = sin a * cos (a - u) - cos a * sin (a - u)"
    unfolding cos_diff sin_diff by simp_all
  show "cos (a - u) * h * cos a + sin (a - u) * h * sin a = h * cos u"
    unfolding c by (simp add: algebra_simps)
  show "cos (a - u) * h * sin a - sin (a - u) * h * cos a = h * sin u"
    unfolding s by (simp add: algebra_simps)
  show "- cos (a - u) * h * cos a - sin (a - u) * h * sin a = - (h * cos u)"
    unfolding c by (simp add: algebra_simps)
qed

lemma sum_angle:
  fixes a u h :: real
  shows "cos (- (a + u)) * h * cos a + sin (- (a + u)) * - h * sin a = h * cos u"
    and "cos (- (a + u)) * - h * sin a - sin (- (a + u)) * h * cos a = h * sin u"
    and "- cos (- (a + u)) * - h * cos a - sin (- (a + u)) * h * sin a = h * cos u"
    and "cos (- (a + u)) * h * sin a - sin (- (a + u)) * - h * cos a = - (h * sin u)"
proof -
  have "cos u = cos ((a + u) - a)" "sin u = sin ((a + u) - a)"
    by simp_all
  then have c: "cos u = cos (a + u) * cos a + sin (a + u) * sin a"
    and s: "sin u = sin (a + u) * cos a - cos (a + u) * sin a"
    unfolding cos_diff sin_diff by simp_all
  show "cos (- (a + u)) * h * cos a + sin (- (a + u)) * - h * sin a = h * cos u"
    unfolding c cos_minus sin_minus by (simp add: algebra_simps)
  show "cos (- (a + u)) * - h * sin a - sin (- (a + u)) * h * cos a = h * sin u"
    unfolding s cos_minus sin_minus by (simp add: algebra_simps)
  show "- cos (- (a + u)) * - h * cos a - sin (- (a + u)) * h * sin a = h * cos u"
    unfolding c cos_minus sin_minus by (simp add: algebra_simps)
  show "cos (- (a + u)) * h * sin a - sin (- (a + u)) * - h * cos a = - (h * sin u)"
    unfolding s cos_minus sin_minus by (simp add: algebra_simps)
qed

text \<open>
  The quaternion of the rotator that a singular branch returns: with
  \<open>\<theta> = atan2f x w\<close> it is \<open>\<plusminus> sqrt 2 / 2 * (cos \<theta>, sin \<theta>, - cos \<theta>, sin \<theta>)\<close> on the upper
  branch and \<open>\<plusminus> sqrt 2 / 2 * (cos \<theta>, sin \<theta>, cos \<theta>, - sin \<theta>)\<close> on the lower one.
\<close>

lemma upper_branch_quaternion:
  assumes st: "SINGULARITY_THRESHOLD < qz q * qx q - qw q * qy q"
  shows "\<exists>s::real. (s = 1 \<or> s = - 1)
          \<and> qw (Quaternion (GetRotator q)) = s * (sqrt 2 / 2 * cos (atan2f (qx q) (qw q)))
          \<and> qx (Quaternion (GetRotator q)) = s * (sqrt 2 / 2 * sin (atan2f (qx q) (qw q)))
          \<and> qy (Quaternion (GetRotator q)) = s * (- (sqrt 2 / 2 * cos (atan2f (qx q) (qw q))))
          \<and> qz (Quaternion (GetRotator q)) = s * (sqrt 2 / 2 * sin (atan2f (qx q) (qw q)))"
proof -
  define th where "th = atan2f (qx q) (qw q)"
  define y where "y = RAD2DEG (atan2f (2 * (qw q * qz q + qx q * qy q))
                                      (1 - 2 * (qy q * qy q + qz q * qz q)))"
  define e' where "e' = GetRotator q"
  have n: "\<not> qz q * qx q - qw q * qy q < - SINGULARITY_THRESHOLD"
    using st by (simp add: SINGULARITY_THRESHOLD_def)
  have g: "pitch e' = 90" "yaw e' = y" "roll e' = NormalizeAxis (y - RAD2DEG (2 * th))"
    using st n by (simp_all add: e'_def GetRotator_def Let_def y_def th_def)
  from NormalizeAxis_congruent[of "y - RAD2DEG (2 * th)"]
  obtain k :: int where k: "roll e' = y - RAD2DEG (2 * th) + 360 * of_int k"
    unfolding g(3) by blast
  define u where "u = th + pi * of_int (- k)"
  define a where "a = DEG2RAD y / 2"
  have R: "DEG2RAD (roll e') / 2 = a - u"
    unfolding k a_def u_def
    by (simp add: DEG2RAD_def RAD2DEG_def PIOVER180_def OVERPI_def field_simps)
  have P: "DEG2RAD (pitch e') / 2 = pi / 4"
    unfolding g(1) by (simp add: DEG2RAD_def PIOVER180_def)
  from shifted_by_pi[of th "- k"] obtain s :: real where
    s: "s = 1 \<or> s = - 1" "cos u = s * cos th" "sin u = s * sin th"
    unfolding u_def by blast
  note c = Quaternion_components[of e', unfolded P g(2) R sin_45 cos_45, folded a_def]
  have "qw (Quaternion e') = sqrt 2 / 2 * cos u" "qx (Quaternion e') = sqrt 2 / 2 * sin u"
    "qy (Quaternion e') = - (sqrt 2 / 2 * cos u)" "qz (Quaternion e') = sqrt 2 / 2 * sin u"
    unfolding c by (rule diff_angle)+
  then show ?thesis
    unfolding s(2,3) e'_def th_def using s(1) by (intro exI[of _ s]) simp
qed

lemma lower_branch_quaternion:
  assumes st: "qz q * qx q - qw q * qy q < - SINGULARITY_THRESHOLD"
  shows "\<exists>s::real. (s = 1 \<or> s = - 1)
          \<and> qw (Quaternion (GetRotator q)) = s * (sqrt 2 / 2 * cos (atan2f (qx q) (qw q)))
          \<and> qx (Quaternion (GetRotator q)) = s * (sqrt 2 / 2 * sin (atan2f (qx q) (qw q)))
          \<and> qy (Quaternion (GetRotator q)) = s * (sqrt 2 / 2 * cos (atan2f (qx q) (qw q)))
          \<and> qz (Quaternion (GetRotator q)) = s * (- (sqrt 2 / 2 * sin (atan2f (qx q) (qw q))))"
proof -
  define th where "th = atan2f (qx q) (qw q)"
  define y where "y = RAD2DEG (atan2f (2 * (qw q * qz q + qx q * qy q))
                                      (1 - 2 * (qy q * qy q + qz q * qz q)))"
  define e' where "e' = GetRotator q"
  have g: "pitch e' = - 90" "yaw e' = y" "roll e' = NormalizeAxis (- y - RAD2DEG (2 * th))"
    using st by (simp_all add: e'_def GetRotator_def Let_def y_def th_def)
  from NormalizeAxis_congruent[of "- y - RAD2DEG (2 * th)"]
  obtain k :: int where k: "roll e' = - y - RAD2DEG (2 * th) + 360 * of_int k"
    unfolding g(3) by blast
  define u where "u = th + pi * of_int (- k)"
  define a where "a = DEG2RAD y / 2"
  have R: "DEG2RAD (roll e') / 2 = - (a + u)"
    unfolding k a_def u_def
    by (simp add: DEG2RAD_def RAD2DEG_def PIOVER180_def OVERPI_def field_simps)
  have P: "DEG2RAD (pitch e') / 2 = - (pi / 4)"
    unfolding g(1) by (simp add: DEG2RAD_def PIOVER180_def)
  from shifted_by_pi[of th "- k"] obtain s :: real where
    s: "s = 1 \<or> s = - 1" "cos u = s * cos th" "sin u = s * sin th"
    unfolding u_def by blast
  note c = Quaternion_components[of e', unfolded P g(2) R, unfolded sin_minus[of "pi / 4"]
      cos_minus[of "pi / 4"] sin_45 cos_45, folded a_def]
  have "qw (Quaternion e') = sqrt 2 / 2 * cos u" "qx (Quaternion e') = sqrt 2 / 2 * sin u"
    "qy (Quaternion e') = sqrt 2 / 2 * cos u" "qz (Quaternion e') = - (sqrt 2 / 2 * sin u)"
    unfolding c by (rule sum_angle)+
  then show ?thesis
    unfolding s(2,3) e'_def th_def using s(1) by (intro exI[of _ s]) simp
qed

lemma abs_less_of_square:
  fixes a b :: real
  assumes "a * a < b * b" "0 \<le> b"
  shows "\<bar>a\<bar> < b"
proof (rule ccontr)
  assume "\<not> \<bar>a\<bar> < b"
  then have "b \<le> \<bar>a\<bar>"
    by simp
  then have "b * b \<le> \<bar>a\<bar> * \<bar>a\<bar>"
    using assms(2) by (intro mult_mono) simp_all
  then show False
    using assms(1) by simp
qed

lemma sqrt_half: "sqrt 2 / 2 * (sqrt 2 / 2) = 1 / 2" "7 / 10 \<le> sqrt 2 / 2"
proof -
  show "sqrt 2 / 2 * (sqrt 2 / 2) = 1 / 2"
    by simp
  have "49 / 25 \<le> (2::real)"
    by simp
  then have "sqrt (49 / 25) \<le> sqrt 2"
    by (simp only: real_sqrt_le_iff)
  moreover have "sqrt (49 / 25) = 7 / 5"
    by (rule real_sqrt_unique) (simp_all add: power2_eq_square)
  ultimately show "7 / 10 \<le> sqrt 2 / 2"
    by simp
qed

text \<open>
  A unit quaternion whose singularity test value \<open>D = z * x - w * y\<close> has the sign
  \<open>\<tau>\<close>: how far it is from \<open>sqrt 2 / 2 * (c, s, - \<tau> * c, \<tau> * s)\<close>, where \<open>(c, s)\<close> is the
  direction of \<open>(w, x)\<close>.
\<close>

lemma singular_geometry:
  fixes w x y z \<tau> :: real
  assumes unit: "w * w + x * x + y * y + z * z = 1"
    and tau: "\<tau> = 1 \<or> \<tau> = - 1"
    and pos: "0 < \<tau> * (z * x - w * y)"
  defines "\<rho> \<equiv> sqrt (w * w + x * x)"
  defines "h \<equiv> sqrt 2 / 2"
  shows "0 < \<rho>"
    and "(w * w + x * x - 1 / 2) * (w * w + x * x - 1 / 2) \<le> 1 / 4 - (z * x - w * y) * (z * x - w * y)"
    and "(w + \<tau> * y) * (w + \<tau> * y) + (z - \<tau> * x) * (z - \<tau> * x) = 1 - 2 * (\<tau> * (z * x - w * y))"
    and "\<bar>h * (w / \<rho>) - w\<bar> \<le> \<bar>h - \<rho>\<bar>"
    and "\<bar>h * (x / \<rho>) - x\<bar> \<le> \<bar>h - \<rho>\<bar>"
    and "\<bar>- \<tau> * (h * (w / \<rho>)) - y\<bar> \<le> \<bar>h - \<rho>\<bar> + \<bar>w + \<tau> * y\<bar>"
    and "\<bar>\<tau> * (h * (x / \<rho>)) - z\<bar> \<le> \<bar>h - \<rho>\<bar> + \<bar>z - \<tau> * x\<bar>"
    and "\<bar>h - \<rho>\<bar> * (7 / 10) \<le> \<bar>w * w + x * x - 1 / 2\<bar>"
proof -
  define A where "A = w * w + x * x"
  have tt: "\<tau> * \<tau> = 1" and at: "\<bar>\<tau>\<bar> = 1"
    using tau by auto
  have A0: "0 \<le> A"
    by (simp add: A_def)
  have "A \<noteq> 0"
  proof
    assume "A = 0"
    then have "w = 0" "x = 0"
      unfolding A_def by simp_all
    with pos show False
      by simp
  qed
  with A0 have Ap: "0 < A"
    by simp
  then show r0: "0 < \<rho>"
    by (simp add: \<rho>_def A_def)
  have rr: "\<rho> * \<rho> = A"
    using A0 by (simp add: \<rho>_def A_def)
  have "A * (y * y + z * z) = (z * x - w * y) * (z * x - w * y) + (w * z + x * y) * (w * z + x * y)"
    by (simp add: A_def algebra_simps)
  moreover have "y * y + z * z = 1 - A"
    using unit by (simp add: A_def)
  ultimately have "A * (1 - A) = (z * x - w * y) * (z * x - w * y) + (w * z + x * y) * (w * z + x * y)"
    by simp
  moreover have "(A - 1 / 2) * (A - 1 / 2) = 1 / 4 - A * (1 - A)"
    by (simp add: algebra_simps)
  moreover have "0 \<le> (w * z + x * y) * (w * z + x * y)"
    by simp
  ultimately show "(w * w + x * x - 1 / 2) * (w * w + x * x - 1 / 2)
                   \<le> 1 / 4 - (z * x - w * y) * (z * x - w * y)"
    unfolding A_def by linarith
  have "(w + \<tau> * y) * (w + \<tau> * y) + (z - \<tau> * x) * (z - \<tau> * x)
        = (w * w + x * x + y * y + z * z) - 2 * (\<tau> * (z * x - w * y))"
    using tau by (auto simp: algebra_simps)
  then show "(w + \<tau> * y) * (w + \<tau> * y) + (z - \<tau> * x) * (z - \<tau> * x)
             = 1 - 2 * (\<tau> * (z * x - w * y))"
    unfolding unit .
  define c s where "c = w / \<rho>" and "s = x / \<rho>"
  have wc: "w = \<rho> * c" and xs: "x = \<rho> * s"
    using r0 by (simp_all add: c_def s_def)
  have "c * c + s * s = A / (\<rho> * \<rho>)"
    by (simp add: c_def s_def A_def add_divide_distrib)
  then have cs: "c * c + s * s = 1"
    unfolding rr using Ap by simp
  have "0 \<le> c * c" "0 \<le> s * s"
    by simp_all
  with cs have "c * c \<le> 1" "s * s \<le> 1"
    by linarith+
  then have "c\<^sup>2 \<le> 1\<^sup>2" "s\<^sup>2 \<le> 1\<^sup>2"
    by (simp_all add: power2_eq_square)
  then have c1: "\<bar>c\<bar> \<le> 1" and s1: "\<bar>s\<bar> \<le> 1"
    by (simp_all only: abs_le_square_iff[symmetric] abs_one)
  have "h * c - w = c * (h - \<rho>)"
    unfolding wc by (simp add: algebra_simps)
  then have "\<bar>h * c - w\<bar> = \<bar>c\<bar> * \<bar>h - \<rho>\<bar>"
    by (simp add: abs_mult)
  also have "\<dots> \<le> 1 * \<bar>h - \<rho>\<bar>"
    using c1 by (intro mult_right_mono) simp_all
  finally show e1: "\<bar>h * (w / \<rho>) - w\<bar> \<le> \<bar>h - \<rho>\<bar>"
    unfolding c_def by simp
  have "h * s - x = s * (h - \<rho>)"
    unfolding xs by (simp add: algebra_simps)
  then have "\<bar>h * s - x\<bar> = \<bar>s\<bar> * \<bar>h - \<rho>\<bar>"
    by (simp add: abs_mult)
  also have "\<dots> \<le> 1 * \<bar>h - \<rho>\<bar>"
    using s1 by (intro mult_right_mono) simp_all
  finally show e2: "\<bar>h * (x / \<rho>) - x\<bar> \<le> \<bar>h - \<rho>\<bar>"
    unfolding s_def by simp
  have "- \<tau> * (h * (w / \<rho>)) - y = - \<tau> * ((h * (w / \<rho>) - w) + (w + \<tau> * y))"
    using tau by (auto simp: algebra_simps)
  then have "\<bar>- \<tau> * (h * (w / \<rho>)) - y\<bar> = \<bar>(h * (w / \<rho>) - w) + (w + \<tau> * y)\<bar>"
    by (simp add: abs_mult at)
  also have "\<dots> \<le> \<bar>h * (w / \<rho>) - w\<bar> + \<bar>w + \<tau> * y\<bar>"
    by (rule abs_triangle_ineq)
  finally show "\<bar>- \<tau> * (h * (w / \<rho>)) - y\<bar> \<le> \<bar>h - \<rho>\<bar> + \<bar>w + \<tau> * y\<bar>"
    using e1 by linarith
  have "\<tau> * (h * (x / \<rho>)) - z = \<tau> * (h * (x / \<rho>) - x) - (z - \<tau> * x)"
    by (simp add: algebra_simps)
  then have "\<bar>\<tau> * (h * (x / \<rho>)) - z\<bar> \<le> \<bar>\<tau> * (h * (x / \<rho>) - x)\<bar> + \<bar>z - \<tau> * x\<bar>"
    by (simp only: abs_triangle_ineq4)
  also have "\<bar>\<tau> * (h * (x / \<rho>) - x)\<bar> = \<bar>h * (x / \<rho>) - x\<bar>"
    by (simp add: abs_mult at)
  finally show "\<bar>\<tau> * (h * (x / \<rho>)) - z\<bar> \<le> \<bar>h - \<rho>\<bar> + \<bar>z - \<tau> * x\<bar>"
    using e2 by linarith
  have hh: "h * h = 1 / 2" and h7: "7 / 10 \<le> h"
    unfolding h_def by (rule sqrt_half)+
  have "(h - \<rho>) * (h + \<rho>) = 1 / 2 - A"
    using hh rr by (simp add: algebra_simps)
  then have "\<bar>(h - \<rho>) * (h + \<rho>)\<bar> = \<bar>1 / 2 - A\<bar>"
    by (rule arg_cong)
  then have "\<bar>h - \<rho>\<bar> * \<bar>h + \<rho>\<bar> = \<bar>A - 1 / 2\<bar>"
    unfolding abs_mult abs_minus_commute[of "1 / 2" A] .
  moreover have "\<bar>h - \<rho>\<bar> * (7 / 10) \<le> \<bar>h - \<rho>\<bar> * \<bar>h + \<rho>\<bar>"
    using h7 r0 by (intro mult_left_mono) simp_all
  ultimately show "\<bar>h - \<rho>\<bar> * (7 / 10) \<le> \<bar>w * w + x * x - 1 / 2\<bar>"
    unfolding A_def by simp
qed

lemma abs_bound_zero:
  fixes a b c d :: real
  shows "\<bar>a - b\<bar> \<le> c \<Longrightarrow> c = 0 \<Longrightarrow> a = b"
    and "\<bar>a - b\<bar> \<le> c + \<bar>d\<bar> \<Longrightarrow> c = 0 \<Longrightarrow> d = 0 \<Longrightarrow> a = b"
  by simp_all

lemma band_close:
  fixes w x y z \<tau> :: real
  assumes unit: "w * w + x * x + y * y + z * z = 1"
    and tau: "\<tau> = 1 \<or> \<tau> = - 1"
    and st: "4999995 / 10000000 < \<tau> * (z * x - w * y)"
  shows "\<bar>sqrt 2 / 2 * (w / sqrt (w * w + x * x)) - w\<bar> < 25 / 10000"
    and "\<bar>sqrt 2 / 2 * (x / sqrt (w * w + x * x)) - x\<bar> < 25 / 10000"
    and "\<bar>- \<tau> * (sqrt 2 / 2 * (w / sqrt (w * w + x * x))) - y\<bar> < 25 / 10000"
    and "\<bar>\<tau> * (sqrt 2 / 2 * (x / sqrt (w * w + x * x))) - z\<bar> < 25 / 10000"
proof -
  have pos: "0 < \<tau> * (z * x - w * y)"
    using st by simp
  note g = singular_geometry[OF unit tau pos]
  have tt: "\<tau> * \<tau> = 1"
    using tau by auto
  have "4999995 / 10000000 * (4999995 / 10000000) < (\<tau> * (z * x - w * y)) * (\<tau> * (z * x - w * y))"
    using st by (intro mult_strict_mono) simp_all
  also have "\<dots> = (\<tau> * \<tau>) * ((z * x - w * y) * (z * x - w * y))"
    by (simp add: algebra_simps)
  finally have D: "4999995 / 10000000 * (4999995 / 10000000) < (z * x - w * y) * (z * x - w * y)"
    unfolding tt by simp
  have "(w * w + x * x - 1 / 2) * (w * w + x * x - 1 / 2) < 71 / 100000 * (71 / 100000)"
    using g(2) D by simp
  then have "\<bar>w * w + x * x - 1 / 2\<bar> < 71 / 100000"
    by (rule abs_less_of_square) simp
  with g(8) have r: "\<bar>sqrt 2 / 2 - sqrt (w * w + x * x)\<bar> < 71 / 70000"
    by simp
  define p q where "p = (w + \<tau> * y) * (w + \<tau> * y)" and "q = (z - \<tau> * x) * (z - \<tau> * x)"
  have "0 \<le> p" "0 \<le> q"
    by (simp_all add: p_def q_def)
  moreover have "p + q = 1 - 2 * (\<tau> * (z * x - w * y))"
    unfolding p_def q_def by (rule g(3))
  ultimately have "p < 1 / 1000 * (1 / 1000)" "q < 1 / 1000 * (1 / 1000)"
    using st by linarith+
  then have "\<bar>w + \<tau> * y\<bar> < 1 / 1000 \<and> \<bar>z - \<tau> * x\<bar> < 1 / 1000"
    unfolding p_def q_def by (intro conjI abs_less_of_square) simp_all
  then have a: "\<bar>w + \<tau> * y\<bar> < 1 / 1000" "\<bar>z - \<tau> * x\<bar> < 1 / 1000"
    by blast+
  show "\<bar>sqrt 2 / 2 * (w / sqrt (w * w + x * x)) - w\<bar> < 25 / 10000"
    using g(4) r by linarith
  show "\<bar>sqrt 2 / 2 * (x / sqrt (w * w + x * x)) - x\<bar> < 25 / 10000"
    using g(5) r by linarith
  show "\<bar>- \<tau> * (sqrt 2 / 2 * (w / sqrt (w * w + x * x))) - y\<bar> < 25 / 10000"
    using g(6) r a(1) by linarith
  show "\<bar>\<tau> * (sqrt 2 / 2 * (x / sqrt (w * w + x * x))) - z\<bar> < 25 / 10000"
    using g(7) r a(2) by linarith
qed

lemma pole_exact:
  fixes w x y z \<tau> :: real
  assumes unit: "w * w + x * x + y * y + z * z = 1"
    and tau: "\<tau> = 1 \<or> \<tau> = - 1"
    and st: "\<tau> * (z * x - w * y) = 1 / 2"
  shows "sqrt 2 / 2 * (w / sqrt (w * w + x * x)) = w"
    and "sqrt 2 / 2 * (x / sqrt (w * w + x * x)) = x"
    and "- \<tau> * (sqrt 2 / 2 * (w / sqrt (w * w + x * x))) = y"
    and "\<tau> * (sqrt 2 / 2 * (x / sqrt (w * w + x * x))) = z"
proof -
  have pos: "0 < \<tau> * (z * x - w * y)"
    using st by simp
  note g = singular_geometry[OF unit tau pos]
  have tt: "\<tau> * \<tau> = 1"
    using tau by auto
  have "(\<tau> * (z * x - w * y)) * (\<tau> * (z * x - w * y)) = (\<tau> * \<tau>) * ((z * x - w * y) * (z * x - w * y))"
    by (simp add: algebra_simps)
  then have D: "(z * x - w * y) * (z * x - w * y) = 1 / 4"
    unfolding tt st by simp
  define u where "u = w * w + x * x - 1 / 2"
  have "u * u \<le> 0"
    using g(2) D by (simp add: u_def)
  moreover have "0 \<le> u * u"
    by simp
  ultimately have "u * u = 0"
    by linarith
  then have "w * w + x * x - 1 / 2 = 0"
    by (simp add: u_def)
  with g(8) have r: "\<bar>sqrt 2 / 2 - sqrt (w * w + x * x)\<bar> = 0"
    by simp
  have "(w + \<tau> * y) * (w + \<tau> * y) + (z - \<tau> * x) * (z - \<tau> * x) = 0"
    using g(3) st by simp
  then have a: "w + \<tau> * y = 0" "z - \<tau> * x = 0"
    by simp_all
  show "sqrt 2 / 2 * (w / sqrt (w * w + x * x)) = w"
    by (rule abs_bound_zero(1)[OF g(4) r])
  show "sqrt 2 / 2 * (x / sqrt (w * w + x * x)) = x"
    by (rule abs_bound_zero(1)[OF g(5) r])
  show "- \<tau> * (sqrt 2 / 2 * (w / sqrt (w * w + x * x))) = y"
    by (rule abs_bound_zero(2)[OF g(6) r a(1)])
  show "\<tau> * (sqrt 2 / 2 * (x / sqrt (w * w + x * x))) = z"
    by (rule abs_bound_zero(2)[OF g(7) r a(2)])
qed

text \<open>
  On a singular branch the rotator returned stands for a quaternion within \<open>0.0025\<close>
  per component of the unit quaternion it came from, up to sign; and for exactly that
  quaternion, up to sign, when the singularity test value is \<open>\<plusminus>1/2\<close>.
\<close>

lemma singular_round_trip:
  fixes \<tau> :: real
  assumes unit: "SizeSquared q = 1"
    and tau: "\<tau> = 1 \<or> \<tau> = - 1"
    and st: "SINGULARITY_THRESHOLD < \<tau> * (qz q * qx q - qw q * qy q)"
  shows "Quat_Equals (Quaternion (GetRotator q)) q (25 / 10000)
         \<or> Quat_Equals (Quaternion (GetRotator q)) (Quat_neg q) (25 / 10000)"
    and "\<tau> * (qz q * qx q - qw q * qy q) = 1 / 2 \<Longrightarrow>
         Quat_eq (Quaternion (GetRotator q)) q \<or> Quat_eq (Quaternion (GetRotator q)) (Quat_neg q)"
proof -
  define w x y z where "w = qw q" and "x = qx q" and "y = qy q" and "z = qz q"
  define \<rho> where "\<rho> = sqrt (w * w + x * x)"
  define h :: real where "h = sqrt 2 / 2"
  define q' where "q' = Quaternion (GetRotator q)"
  have u: "w * w + x * x + y * y + z * z = 1"
    using unit by (simp add: SizeSquared_def w_def x_def y_def z_def)
  have st': "4999995 / 10000000 < \<tau> * (z * x - w * y)"
    using st by (simp add: SINGULARITY_THRESHOLD_def w_def x_def y_def z_def)
  have "w \<noteq> 0 \<or> x \<noteq> 0"
    using st' by auto
  from atan2f_cos_sin[OF this]
  have th: "cos (atan2f x w) = w / \<rho>" "sin (atan2f x w) = x / \<rho>"
    by (simp_all add: \<rho>_def)
  have "\<exists>s::real. (s = 1 \<or> s = - 1)
          \<and> qw q' = s * (h * (w / \<rho>)) \<and> qx q' = s * (h * (x / \<rho>))
          \<and> qy q' = s * (- \<tau> * (h * (w / \<rho>))) \<and> qz q' = s * (\<tau> * (h * (x / \<rho>)))"
  proof (cases "\<tau> = 1")
    case True
    then have "SINGULARITY_THRESHOLD < qz q * qx q - qw q * qy q"
      using st by simp
    from upper_branch_quaternion[OF this, folded w_def x_def q'_def h_def, unfolded th]
    show ?thesis
      unfolding True by simp
  next
    case False
    then have m: "\<tau> = - 1"
      using tau by simp
    then have "qz q * qx q - qw q * qy q < - SINGULARITY_THRESHOLD"
      using st by simp
    from lower_branch_quaternion[OF this, folded w_def x_def q'_def h_def, unfolded th]
    show ?thesis
      unfolding m by simp
  qed
  then obtain s :: real where s: "s = 1 \<or> s = - 1"
    and c: "qw q' = s * (h * (w / \<rho>))" "qx q' = s * (h * (x / \<rho>))"
      "qy q' = s * (- \<tau> * (h * (w / \<rho>)))" "qz q' = s * (\<tau> * (h * (x / \<rho>)))"
    by blast
  note b = band_close[OF u tau st', folded \<rho>_def h_def]
  have nq: "qw (Quat_neg q) = - w" "qx (Quat_neg q) = - x" "qy (Quat_neg q) = - y"
    "qz (Quat_neg q) = - z"
    by (simp_all add: Quat_neg_def Quat_make_def w_def x_def y_def z_def)
  have n: "\<bar>- 1 * a - - b\<bar> < 25 / 10000" if "\<bar>a - b\<bar> < 25 / 10000" for a b :: real
  proof -
    have "- 1 * a - - b = - (a - b)"
      by simp
    then show ?thesis
      unfolding abs_minus using that by (simp only:)
  qed
  from s show "Quat_Equals q' q (25 / 10000) \<or> Quat_Equals q' (Quat_neg q) (25 / 10000)"
  proof
    assume s1: "s = 1"
    have "Quat_Equals q' q (25 / 10000)"
      unfolding Quat_Equals_def FloatEqual_def c w_def[symmetric] x_def[symmetric]
        y_def[symmetric] z_def[symmetric] s1 mult_1
      by (intro conjI b)
    then show ?thesis
      by blast
  next
    assume s1: "s = - 1"
    have "Quat_Equals q' (Quat_neg q) (25 / 10000)"
      unfolding Quat_Equals_def FloatEqual_def c s1 nq
      by (intro conjI n b)
    then show ?thesis
      by blast
  qed
  assume "\<tau> * (qz q * qx q - qw q * qy q) = 1 / 2"
  then have "\<tau> * (z * x - w * y) = 1 / 2"
    by (simp add: w_def x_def y_def z_def)
  note p = pole_exact[OF u tau this, folded \<rho>_def h_def]
  have "qw q' = s * qw q" "qx q' = s * qx q" "qy q' = s * qy q" "qz q' = s * qz q"
    unfolding c p(3,4) unfolding p(1,2) by (simp_all add: w_def x_def y_def z_def)
  from Quat_eq_scaled[OF s this] show "Quat_eq q' q \<or> Quat_eq q' (Quat_neg q)" .
qed

lemma exact_within:
  assumes "Quat_eq p q" "0 < tol"
  shows "Quat_Equals p q tol"
  using assms by (simp add: Quat_eq_def Quat_Equals_def FloatEqual_def)

lemma sqrt_2_upper: "sqrt 2 < 14143 / 10000"
proof -
  have "sqrt 2 < sqrt ((14143 / 10000)\<^sup>2)"
    unfolding real_sqrt_less_iff by (simp add: power2_eq_square)
  then show ?thesis
    by simp
qed

lemma near_pole_quaternion:
  "Quaternion (Rotator_make (2 * arctan (13568 / 13575) * (180 / pi)) 0 0)
   = Quat_make (13575 / 19193) 0 (- (13568 / 19193)) 0"
proof -
  have h: "2 * arctan (13568 / 13575) * (180 / pi) * (pi / 180 / 2) = arctan (13568 / 13575)"
    by simp
  have r: "sqrt (1 + (13568 / 13575)\<^sup>2) = 19193 / 13575"
    by (rule real_sqrt_unique) (simp_all add: power2_eq_square)
  have s: "sin (arctan (13568 / 13575)) = 13568 / 19193"
    unfolding sin_arctan r by simp
  have c: "cos (arctan (13568 / 13575)) = 13575 / 19193"
    unfolding cos_arctan r by simp
  show ?thesis
    unfolding Quaternion_def Let_def Rotator_make_def Quat_make_def
    by (simp add: h s c)
qed

lemma near_pole_rotator:
  "GetRotator (Quat_make (13575 / 19193) 0 (- (13568 / 19193)) 0) = Rotator_make 90 0 0"
  by (simp add: GetRotator_def Quat_make_def Rotator_make_def SINGULARITY_THRESHOLD_def
      atan2f_def RAD2DEG_def NormalizeAxis_def fmodf_def truncf_def Let_def)

lemma pole_quaternion:
  "Quaternion (Rotator_make 90 0 0) = Quat_make (sqrt 2 / 2) 0 (- (sqrt 2 / 2)) 0"
proof -
  have h: "90 * (pi / 180 / 2) = pi / 4"
    by simp
  show ?thesis
    unfolding Quaternion_def Let_def Rotator_make_def Quat_make_def
    by (simp add: h sin_45 cos_45)
qed


subsection \<open>The general branch modulo whole turns\<close>

lemma truncf_of_int: "truncf (of_int m) = m"
  by (simp add: truncf_def)

lemma NormalizeAxis_full_turns: "NormalizeAxis (360 * of_int m) = 0"
  by (simp add: NormalizeAxis_def fmodf_def truncf_of_int Let_def)

lemma principal_angle:
  fixes t :: real
  shows "\<exists>t0. - pi < t0 \<and> t0 \<le> pi \<and> sin t0 = sin t \<and> cos t0 = cos t
              \<and> (\<exists>n::int. RAD2DEG t0 = RAD2DEG t + 360 * of_int n)"
proof -
  from sincos_principal_value[of t] obtain t0 where
    t0: "- pi < t0" "t0 \<le> pi" "sin t0 = sin t" "cos t0 = cos t"
    by blast
  from t0(3,4) sin_cos_eq_iff[of t0 t] obtain n :: int where "t0 = t + 2 * pi * of_int n"
    by blast
  then have "RAD2DEG t0 = RAD2DEG t + 360 * of_int n"
    by (simp add: RAD2DEG_def OVERPI_def field_simps)
  with t0 show ?thesis
    by blast
qed

lemma cos_pos_principal:
  fixes t :: real
  assumes "- pi < t" "t \<le> pi" "0 < cos t"
  shows "- (pi / 2) < t \<and> t < pi / 2"
proof -
  have "\<not> pi / 2 \<le> t"
  proof
    assume "pi / 2 \<le> t"
    then have "0 \<le> cos (t - pi)"
      using assms(2) by (intro cos_ge_zero) simp_all
    then show False
      using assms(3) by simp
  qed
  moreover have "\<not> t \<le> - (pi / 2)"
  proof
    assume "t \<le> - (pi / 2)"
    then have "0 \<le> cos (t + pi)"
      using assms(1) by (intro cos_ge_zero) simp_all
    then show False
      using assms(3) by simp
  qed
  ultimately show ?thesis
    by simp
qed

text \<open>
  On the general branch, with the cosine of the pitch positive, each recovered angle
  differs from the one put in by a whole number of turns.
\<close>

lemma round_trip_modulo:
  assumes s: "\<bar>sin (DEG2RAD (pitch e))\<bar> \<le> 2 * SINGULARITY_THRESHOLD"
    and c: "0 < cos (DEG2RAD (pitch e))"
  shows "\<exists>m::int. pitch (GetRotator (Quaternion e)) = pitch e + 360 * of_int m"
    and "\<exists>m::int. yaw (GetRotator (Quaternion e)) = yaw e + 360 * of_int m"
    and "\<exists>m::int. roll (GetRotator (Quaternion e)) = roll e + 360 * of_int m"
proof -
  note g = general_branch[OF s]
  from principal_angle[of "DEG2RAD (pitch e)"] obtain P0 and m :: int where
    P0: "- pi < P0" "P0 \<le> pi" "sin P0 = sin (DEG2RAD (pitch e))"
      "cos P0 = cos (DEG2RAD (pitch e))"
      "RAD2DEG P0 = RAD2DEG (DEG2RAD (pitch e)) + 360 * of_int m"
    by blast
  from cos_pos_principal[OF P0(1,2)] c have "- (pi / 2) < P0 \<and> P0 < pi / 2"
    unfolding P0(4) by blast
  then have "arcsin (sin P0) = P0"
    by (intro arcsin_sin) simp_all
  then have "pitch (GetRotator (Quaternion e)) = pitch e + 360 * of_int m"
    unfolding g(1) P0(3)[symmetric] using P0(5) by (simp add: RAD2DEG_DEG2RAD)
  then show "\<exists>m::int. pitch (GetRotator (Quaternion e)) = pitch e + 360 * of_int m"
    by blast
  from principal_angle[of "DEG2RAD (yaw e)"] obtain Y0 and n :: int where
    Y0: "- pi < Y0" "Y0 \<le> pi" "sin Y0 = sin (DEG2RAD (yaw e))"
      "cos Y0 = cos (DEG2RAD (yaw e))"
      "RAD2DEG Y0 = RAD2DEG (DEG2RAD (yaw e)) + 360 * of_int n"
    by blast
  have "yaw (GetRotator (Quaternion e)) = yaw e + 360 * of_int n"
    unfolding g(2) Y0(3,4)[symmetric] atan2f_polar[OF c Y0(1,2)]
    using Y0(5) by (simp add: RAD2DEG_DEG2RAD)
  then show "\<exists>m::int. yaw (GetRotator (Quaternion e)) = yaw e + 360 * of_int m"
    by blast
  from principal_angle[of "DEG2RAD (roll e)"] obtain R0 and l :: int where
    R0: "- pi < R0" "R0 \<le> pi" "sin R0 = sin (DEG2RAD (roll e))"
      "cos R0 = cos (DEG2RAD (roll e))"
      "RAD2DEG R0 = RAD2DEG (DEG2RAD (roll e)) + 360 * of_int l"
    by blast
  have "roll (GetRotator (Quaternion e)) = roll e + 360 * of_int l"
    unfolding g(3) R0(3,4)[symmetric] atan2f_polar[OF c R0(1,2)]
    using R0(5) by (simp add: RAD2DEG_DEG2RAD)
  then show "\<exists>m::int. roll (GetRotator (Quaternion e)) = roll e + 360 * of_int m"
    by blast
qed

lemma round_trip_Equals:
  assumes s: "\<bar>sin (DEG2RAD (pitch e))\<bar> \<le> 2 * SINGULARITY_THRESHOLD"
    and c: "0 < cos (DEG2RAD (pitch e))"
  shows "Rotator_Equals (GetRotator (Quaternion e)) e 0"
proof -
  from round_trip_modulo[OF s c] obtain m n l :: int where
    "pitch (GetRotator (Quaternion e)) - pitch e = 360 * of_int m"
    "yaw (GetRotator (Quaternion e)) - yaw e = 360 * of_int n"
    "roll (GetRotator (Quaternion e)) - roll e = 360 * of_int l"
    by fastforce
  then show ?thesis
    unfolding Rotator_Equals_def by (simp only: NormalizeAxis_full_turns) simp
qed


subsection \<open>The round trip\<close>

text \<open>
  C3, as the claim states it, fails in two ways. Away from the poles: the triple
  (pitch 180, yaw 0, roll 0) has the quaternion \<open>(w = 0, x = 0, y = -1, z = 0)\<close>, the
  singularity test is 0, and \<^verbatim>\<open>GetRotator\<close> returns (pitch 0, yaw 180, roll 180): the
  same orientation, but \<^verbatim>\<open>Rotator::Equals\<close>, which compares the angles modulo 360,
  does not accept it as the triple it came from. Next to a pole: the triple with
  pitch \<open>2 * arctan (13568 / 13575)\<close>, about 89.97 degrees, yaw 0 and roll 0 has the
  unit quaternion \<open>(13575 / 19193, 0, -13568 / 19193, 0)\<close>, the singularity test exceeds
  the threshold, the pitch is replaced by 90, and the quaternion of the rotator
  returned is \<open>(sqrt 2 / 2, 0, - sqrt 2 / 2, 0)\<close>, which \<^verbatim>\<open>Quat::Equals\<close> accepts neither as
  the first quaternion nor as its negation at the tolerance \<^verbatim>\<open>KINDA_SMALL_NUMBER\<close>.
\<close>

theorem round_trip_counterexample:
  "\<not> Rotator_Equals (GetRotator (Quaternion (Rotator_make 180 0 0))) (Rotator_make 180 0 0)
        KINDA_SMALL_NUMBER
   \<and> \<not> Quat_Equals
         (Quaternion (GetRotator
            (Quaternion (Rotator_make (2 * arctan (13568 / 13575) * (180 / pi)) 0 0))))
         (Quaternion (Rotator_make (2 * arctan (13568 / 13575) * (180 / pi)) 0 0))
         KINDA_SMALL_NUMBER
   \<and> \<not> Quat_Equals
         (Quaternion (GetRotator
            (Quaternion (Rotator_make (2 * arctan (13568 / 13575) * (180 / pi)) 0 0))))
         (Quat_neg (Quaternion (Rotator_make (2 * arctan (13568 / 13575) * (180 / pi)) 0 0)))
         KINDA_SMALL_NUMBER"
proof -
  have q: "Quaternion (Rotator_make 180 0 0) = Quat_make 0 0 (- 1) 0"
    by (simp add: Quaternion_def Rotator_make_def Quat_make_def Let_def)
  have p: "pitch (GetRotator (Quat_make 0 0 (- 1) 0)) = 0"
    by (simp add: GetRotator_def Quat_make_def SINGULARITY_THRESHOLD_def RAD2DEG_def Let_def)
  have n: "NormalizeAxis (- 180) = - 180"
    by (simp add: NormalizeAxis_def fmodf_def truncf_def Let_def)
  have 1: "\<not> Rotator_Equals (GetRotator (Quaternion (Rotator_make 180 0 0))) (Rotator_make 180 0 0)
        KINDA_SMALL_NUMBER"
    unfolding Rotator_Equals_def q p
    by (simp add: Rotator_make_def n KINDA_SMALL_NUMBER_def)
  have 2: "\<not> Quat_Equals (Quat_make (sqrt 2 / 2) 0 (- (sqrt 2 / 2)) 0)
                (Quat_make (13575 / 19193) 0 (- (13568 / 19193)) 0) KINDA_SMALL_NUMBER"
    using sqrt_2_upper
    by (simp add: Quat_Equals_def FloatEqual_def Quat_make_def KINDA_SMALL_NUMBER_def)
  have "0 < sqrt 2"
    by simp
  then have 3: "\<not> Quat_Equals (Quat_make (sqrt 2 / 2) 0 (- (sqrt 2 / 2)) 0)
                (Quat_neg (Quat_make (13575 / 19193) 0 (- (13568 / 19193)) 0)) KINDA_SMALL_NUMBER"
    by (simp add: Quat_Equals_def FloatEqual_def Quat_neg_def Quat_make_def KINDA_SMALL_NUMBER_def)
  show ?thesis
    unfolding near_pole_quaternion near_pole_rotator pole_quaternion
    using 1 2 3 by blast
qed


lemma round_trip_180:
  "GetRotator (Quaternion (Rotator_make 180 0 0)) = Rotator_make 0 180 180"
  by (simp add: Quaternion_def Rotator_make_def GetRotator_def SINGULARITY_THRESHOLD_def
      atan2f_def RAD2DEG_def OVERPI_def Let_def)

text \<open>
  C3, amended. For every Euler triple \<open>e\<close> the rotator recovered from
  \<^verbatim>\<open>e.Quaternion()\<close> has the quaternion of \<open>e\<close> or its negation, which is the same
  orientation: within \<open>0.0025\<close> in every component always, and exactly when
  \<^verbatim>\<open>GetRotator\<close> takes its general branch (\<open>|sin pitch| \<le> 0.999999\<close>) or the pitch is
  exactly at a pole (\<open>|sin pitch| = 1\<close>). On the singular branches the pitch returned
  is exactly \<open>90\<close> or \<open>-90\<close>. On the general branch,
  if the cosine of the pitch is positive, the recovered pitch, yaw and roll are those
  of \<open>e\<close> up to whole turns, which is what \<^verbatim>\<open>Rotator::Equals\<close> compares; they are those
  of \<open>e\<close> themselves if the pitch lies strictly between \<open>-90\<close> and \<open>90\<close> and yaw and roll
  lie in \<open>(-180, 180]\<close>.
\<close>

theorem Rotator_Quat_round_trip:
  fixes e :: Rotator
  defines "sp \<equiv> sin (pitch e * (pi / 180))"
  shows "(Quat_Equals (Quaternion (GetRotator (Quaternion e))) (Quaternion e) (25 / 10000)
          \<or> Quat_Equals (Quaternion (GetRotator (Quaternion e))) (Quat_neg (Quaternion e))
               (25 / 10000))
       \<and> (\<bar>sp\<bar> \<le> 999999 / 1000000 \<or> \<bar>sp\<bar> = 1 \<longrightarrow>
            Quat_eq (Quaternion (GetRotator (Quaternion e))) (Quaternion e)
            \<or> Quat_eq (Quaternion (GetRotator (Quaternion e))) (Quat_neg (Quaternion e)))
       \<and> (999999 / 1000000 < sp \<longrightarrow> pitch (GetRotator (Quaternion e)) = 90)
       \<and> (sp < - (999999 / 1000000) \<longrightarrow> pitch (GetRotator (Quaternion e)) = - 90)
       \<and> (\<bar>sp\<bar> \<le> 999999 / 1000000 \<and> - 90 < pitch e \<and> pitch e < 90
            \<and> - 180 < yaw e \<and> yaw e \<le> 180 \<and> - 180 < roll e \<and> roll e \<le> 180 \<longrightarrow>
          pitch (GetRotator (Quaternion e)) = pitch e
          \<and> yaw (GetRotator (Quaternion e)) = yaw e
          \<and> roll (GetRotator (Quaternion e)) = roll e)
       \<and> (\<bar>sp\<bar> \<le> 999999 / 1000000 \<and> 0 < cos (pitch e * (pi / 180)) \<longrightarrow>
          Rotator_Equals (GetRotator (Quaternion e)) e 0)"
proof -
  let ?q = "Quaternion e" and ?q' = "Quaternion (GetRotator (Quaternion e))"
  have sp: "sp = sin (DEG2RAD (pitch e))"
    by (simp add: sp_def DEG2RAD_def PIOVER180_def)
  have st: "qz ?q * qx ?q - qw ?q * qy ?q = sp / 2"
    unfolding sp by (rule Quaternion_tests(1))
  note u = Quaternion_unit[of e]
  have g: "Quat_eq ?q' ?q \<or> Quat_eq ?q' (Quat_neg ?q)" if "\<bar>sp\<bar> \<le> 999999 / 1000000"
    using that unfolding sp by (intro round_trip_effect) (simp add: SINGULARITY_THRESHOLD_def)
  have up: "SINGULARITY_THRESHOLD < 1 * (qz ?q * qx ?q - qw ?q * qy ?q)" if "999999 / 1000000 < sp"
    unfolding st using that by (simp add: SINGULARITY_THRESHOLD_def)
  have lo: "SINGULARITY_THRESHOLD < - 1 * (qz ?q * qx ?q - qw ?q * qy ?q)"
    if "sp < - (999999 / 1000000)"
    unfolding st using that by (simp add: SINGULARITY_THRESHOLD_def)
  have 1: "Quat_Equals ?q' ?q (25 / 10000) \<or> Quat_Equals ?q' (Quat_neg ?q) (25 / 10000)"
  proof -
    consider "\<bar>sp\<bar> \<le> 999999 / 1000000" | "999999 / 1000000 < sp" | "sp < - (999999 / 1000000)"
      by linarith
    then show ?thesis
    proof cases
      case 1
      from g[OF this] show ?thesis
        using exact_within[of ?q' ?q "25 / 10000"] exact_within[of ?q' "Quat_neg ?q" "25 / 10000"]
        by auto
    next
      case 2
      show ?thesis
        by (rule singular_round_trip(1)[OF u _ up[OF 2]]) simp
    next
      case 3
      show ?thesis
        by (rule singular_round_trip(1)[OF u _ lo[OF 3]]) simp
    qed
  qed
  have 2: "Quat_eq ?q' ?q \<or> Quat_eq ?q' (Quat_neg ?q)" if "\<bar>sp\<bar> \<le> 999999 / 1000000 \<or> \<bar>sp\<bar> = 1"
  proof -
    have "sp = 1 \<or> sp = - 1" if "\<bar>sp\<bar> = 1"
      using that by linarith
    with that consider "\<bar>sp\<bar> \<le> 999999 / 1000000" | "sp = 1" | "sp = - 1"
      by blast
    then show ?thesis
    proof cases
      case 1
      then show ?thesis
        by (rule g)
    next
      case 2
      have a: "999999 / 1000000 < sp"
        unfolding 2 by simp
      have b: "1 * (qz ?q * qx ?q - qw ?q * qy ?q) = 1 / 2"
        unfolding st 2 by simp
      show ?thesis
        by (rule singular_round_trip(2)[OF u _ up[OF a] b]) simp
    next
      case 3
      have a: "sp < - (999999 / 1000000)"
        unfolding 3 by simp
      have b: "- 1 * (qz ?q * qx ?q - qw ?q * qy ?q) = 1 / 2"
        unfolding st 3 by simp
      show ?thesis
        by (rule singular_round_trip(2)[OF u _ lo[OF a] b]) simp
    qed
  qed
  have 3: "pitch (GetRotator ?q) = 90" if "999999 / 1000000 < sp"
    using up[OF that] by (simp add: GetRotator_def Let_def SINGULARITY_THRESHOLD_def)
  have 4: "pitch (GetRotator ?q) = - 90" if "sp < - (999999 / 1000000)"
    using lo[OF that] by (simp add: GetRotator_def Let_def SINGULARITY_THRESHOLD_def)
  have 6: "pitch (GetRotator ?q) = pitch e \<and> yaw (GetRotator ?q) = yaw e
           \<and> roll (GetRotator ?q) = roll e"
    if "\<bar>sp\<bar> \<le> 999999 / 1000000 \<and> - 90 < pitch e \<and> pitch e < 90
            \<and> - 180 < yaw e \<and> yaw e \<le> 180 \<and> - 180 < roll e \<and> roll e \<le> 180"
  proof -
    have s: "\<bar>sin (DEG2RAD (pitch e))\<bar> \<le> 2 * SINGULARITY_THRESHOLD"
      using that unfolding sp by (simp add: SINGULARITY_THRESHOLD_def)
    from that round_trip_exact[OF _ _ s] show ?thesis
      by blast
  qed
  have 7: "Rotator_Equals (GetRotator ?q) e 0"
    if "\<bar>sp\<bar> \<le> 999999 / 1000000 \<and> 0 < cos (pitch e * (pi / 180))"
  proof -
    have s: "\<bar>sin (DEG2RAD (pitch e))\<bar> \<le> 2 * SINGULARITY_THRESHOLD"
      using that unfolding sp by (simp add: SINGULARITY_THRESHOLD_def)
    have c: "0 < cos (DEG2RAD (pitch e))"
      using that by (simp add: DEG2RAD_def PIOVER180_def)
    from s c show ?thesis
      by (rule round_trip_Equals)
  qed
  from 1 2 3 4 6 7 show ?thesis
    by blast
qed

theorem Rotator_Quat_round_trip_witness:
  "\<bar>sin (pitch (Rotator_make 30 45 180) * (pi / 180))\<bar> \<le> 999999 / 1000000
   \<and> pitch (GetRotator (Quaternion (Rotator_make 30 45 180))) = 30
   \<and> yaw (GetRotator (Quaternion (Rotator_make 30 45 180))) = 45
   \<and> roll (GetRotator (Quaternion (Rotator_make 30 45 180))) = 180
   \<and> \<bar>sin (pitch (Rotator_make 90 10 20) * (pi / 180))\<bar> = 1
   \<and> 999999 / 1000000 < sin (pitch (Rotator_make 90 10 20) * (pi / 180))
   \<and> pitch (GetRotator (Quaternion (Rotator_make 90 10 20))) = 90
   \<and> (Quat_eq (Quaternion (GetRotator (Quaternion (Rotator_make 90 10 20))))
         (Quaternion (Rotator_make 90 10 20))
       \<or> Quat_eq (Quaternion (GetRotator (Quaternion (Rotator_make 90 10 20))))
         (Quat_neg (Quaternion (Rotator_make 90 10 20))))
   \<and> sin (pitch (Rotator_make (- 90) 10 20) * (pi / 180)) < - (999999 / 1000000)
   \<and> pitch (GetRotator (Quaternion (Rotator_make (- 90) 10 20))) = - 90
   \<and> \<bar>sin (pitch (Rotator_make 390 405 (- 180)) * (pi / 180))\<bar> \<le> 999999 / 1000000
   \<and> 0 < cos (pitch (Rotator_make 390 405 (- 180)) * (pi / 180))
   \<and> Rotator_Equals (GetRotator (Quaternion (Rotator_make 390 405 (- 180))))
         (Rotator_make 390 405 (- 180)) 0"
proof -
  have f: "pitch (Rotator_make 30 45 180) = 30" "yaw (Rotator_make 30 45 180) = 45"
    "roll (Rotator_make 30 45 180) = 180" "pitch (Rotator_make 90 10 20) = 90"
    "pitch (Rotator_make (- 90) 10 20) = - 90"
    by (simp_all add: Rotator_make_def)
  have a: "30 * (pi / 180) = pi / 6" "90 * (pi / 180) = pi / 2" "- 90 * (pi / 180) = - (pi / 2)"
    by simp_all
  have s: "sin (30 * (pi / 180)) = 1 / 2" "sin (90 * (pi / 180)) = 1"
    "sin (- 90 * (pi / 180)) = - 1"
    unfolding a by (simp_all add: sin_30)
  note A = Rotator_Quat_round_trip[of "Rotator_make 30 45 180", unfolded f s]
  have a0: "\<bar>1 / 2\<bar> \<le> (999999 / 1000000 :: real) \<and> - 90 < (30::real) \<and> (30::real) < 90
            \<and> - 180 < (45::real) \<and> (45::real) \<le> 180 \<and> - 180 < (180::real) \<and> (180::real) \<le> 180"
    by simp
  from A a0 have 1: "pitch (GetRotator (Quaternion (Rotator_make 30 45 180))) = 30
       \<and> yaw (GetRotator (Quaternion (Rotator_make 30 45 180))) = 45
       \<and> roll (GetRotator (Quaternion (Rotator_make 30 45 180))) = 180"
    by blast
  note B = Rotator_Quat_round_trip[of "Rotator_make 90 10 20", unfolded f s]
  have b0: "\<bar>1\<bar> = (1::real)" "999999 / 1000000 < (1::real)"
    by simp_all
  from B b0 have 2: "pitch (GetRotator (Quaternion (Rotator_make 90 10 20))) = 90"
    and 4: "Quat_eq (Quaternion (GetRotator (Quaternion (Rotator_make 90 10 20))))
         (Quaternion (Rotator_make 90 10 20))
       \<or> Quat_eq (Quaternion (GetRotator (Quaternion (Rotator_make 90 10 20))))
         (Quat_neg (Quaternion (Rotator_make 90 10 20)))"
    by blast+
  note C = Rotator_Quat_round_trip[of "Rotator_make (- 90) 10 20", unfolded f s]
  have c0: "- 1 < - (999999 / 1000000 :: real)"
    by simp
  from C c0 have 5: "pitch (GetRotator (Quaternion (Rotator_make (- 90) 10 20))) = - 90"
    by blast
  have f': "pitch (Rotator_make 390 405 (- 180)) = 390"
    by (simp add: Rotator_make_def)
  have a': "390 * (pi / 180) = pi / 6 + 2 * pi"
    by simp
  have s': "sin (390 * (pi / 180)) = 1 / 2" "cos (390 * (pi / 180)) = sqrt 3 / 2"
    unfolding a' sin_periodic cos_periodic by (rule sin_30 cos_30)+
  note D = Rotator_Quat_round_trip[of "Rotator_make 390 405 (- 180)", unfolded f' s']
  have d0: "\<bar>1 / 2\<bar> \<le> (999999 / 1000000 :: real) \<and> 0 < sqrt 3 / 2"
    by simp
  from D d0 have 6: "Rotator_Equals (GetRotator (Quaternion (Rotator_make 390 405 (- 180))))
         (Rotator_make 390 405 (- 180)) 0"
    by blast
  show ?thesis
    unfolding f s f' s' using 1 2 4 5 6 by simp
qed

end
